theory Spec2Isabelle
  imports Complex_Main
begin

section \<open>Data model\<close>

text \<open>
  The records follow the schema classes the source files use. Only the fields that the
  modelled functions read or write are kept. A Python dict used as plain data is an
  association list; \<open>None\<close> is \<open>None\<close> of an option type.
\<close>

text \<open>
  Modelled from the spec: the enumerations \<open>DocSourceStatus\<close> and \<open>DocSourceType\<close> are
  imported by the source files and declared outside them. Section 3 gives the statuses
  CREATED, PROCESSING, COMPLETED, FAILED and the source types URL, SEARCH, LOCAL.
\<close>

datatype DocSourceStatus = CREATED | PROCESSING | COMPLETED | FAILED

datatype DocSourceType = URL | SEARCH | LOCAL

record IngestConfig =
  ic_flow_options :: "(string \<times> string) list"
  ic_extra_parameters :: "(string \<times> string) list"

record DocSourceCreate =
  dc_org_id :: "string option"
  dc_kb_id :: string
  dc_source_type :: DocSourceType
  dc_uri :: string
  dc_display_name :: string
  dc_ingest_config :: "IngestConfig option"

record DocSource =
  docsource_uuid :: string
  ds_kb_id :: string
  ds_source_type :: DocSourceType
  ds_uri :: string
  ds_display_name :: string
  source_status :: DocSourceStatus
  ds_ingest_config :: "IngestConfig option"

record Document =
  document_uuid :: string
  docsink_uuid :: string
  doc_docsource_uuid :: string

datatype DocSinkCreate = DocSinkCreate string

record Org =
  org_id :: string
  org_name :: string

record KnowledgeBase =
  kb_id :: string
  kb_name :: string
  auto_schedule :: bool

record ChatQueryItem =
  query_content :: string
  chat_id :: string
  query_id :: string

text \<open>
  \<open>ExecInfo\<close>: \<open>ei_scheduler_is_running\<close> is \<open>exec_info.context.scheduler_is_running\<close>,
  \<open>ei_flow_options\<close> is \<open>exec_info.chat_query_options.flow_options\<close>. The display logger
  of an \<open>ExecInfo\<close> is taken to be present: the steps call
  \<open>exec_info.display_logger.info\<close> unguarded, and the fallback \<open>logger()\<close> of
  \<open>run_step\<close> writes to the same log.
\<close>

record ExecInfo =
  ei_org :: Org
  ei_kb :: KnowledgeBase
  ei_scheduler_is_running :: bool
  ei_target_chat_query_item :: "ChatQueryItem option"
  ei_flow_options :: "(string \<times> string) list option"

text \<open>
  Exceptions are values. \<open>CollaboratorError\<close> is any exception raised by code outside
  the modelled files (the web searcher, the pipeline, the vendor client).
\<close>

datatype exn =
    UnexpectedCaseException string
  | MissingParametersException string
  | UnexpectedOperationFailureException string string
  | AttributeError string
  | IndexError string
  | KeyError string
  | TypeError string
  | OverflowError string
  | ValueError string
  | CollaboratorError string

fun str_exn :: "exn \<Rightarrow> string" where
  "str_exn (UnexpectedCaseException m) = m"
| "str_exn (MissingParametersException p) = ''Missing parameter: '' @ p"
| "str_exn (UnexpectedOperationFailureException d e) = d @ '': '' @ e"
| "str_exn (AttributeError m) = m"
| "str_exn (IndexError m) = m"
| "str_exn (KeyError m) = m"
| "str_exn (TypeError m) = m"
| "str_exn (OverflowError m) = m"
| "str_exn (ValueError m) = m"
| "str_exn (CollaboratorError m) = m"

text \<open>Decimal rendering of numbers, as an f-string does.\<close>

fun str_nat :: "nat \<Rightarrow> string" where
  "str_nat n =
     (if n < 10 then [char_of (48 + n)]
      else str_nat (n div 10) @ [char_of (48 + n mod 10)])"

declare str_nat.simps [simp del]

definition str_int :: "int \<Rightarrow> string" where
  "str_int i = (if i < 0 then ''-'' @ str_nat (nat (- i)) else str_nat (nat i))"

text \<open>
  A Python float: a finite value, taken as a real number, an infinity or a NaN. The two
  comparisons are the ones the code makes, with a number on the right; a NaN compares
  false.
\<close>

datatype pyfloat = Finite real | PosInf | NegInf | NaN

fun float_lt :: "pyfloat \<Rightarrow> real \<Rightarrow> bool" where
  "float_lt (Finite r) x = (r < x)"
| "float_lt NegInf x = True"
| "float_lt PosInf x = False"
| "float_lt NaN x = False"

fun float_gt :: "pyfloat \<Rightarrow> real \<Rightarrow> bool" where
  "float_gt (Finite r) x = (r > x)"
| "float_gt PosInf x = True"
| "float_gt NegInf x = False"
| "float_gt NaN x = False"

text \<open>
  The settings of \<open>settings.py\<close> that the modelled code and the scheduler policy read,
  with the defaults the \<open>Field\<close> declarations give them.
\<close>

record SystemSettings =
  DEFAULT_TEMPERATURE :: pyfloat
  DEFAULT_MAX_TOKENS :: int
  scheduler_default_number_worker :: int
  scheduler_base_delay_in_seconds :: int
  scheduler_max_delay_in_seconds :: int
  scheduler_max_retries :: int

definition default_settings :: SystemSettings where
  "default_settings =
     \<lparr>DEFAULT_TEMPERATURE = Finite 0, DEFAULT_MAX_TOKENS = - 1,
      scheduler_default_number_worker = 8,
      scheduler_base_delay_in_seconds = 10,
      scheduler_max_delay_in_seconds = 60,
      scheduler_max_retries = 3\<rparr>"

text \<open>
  The vendor's completion object, as far as \<open>run_inference_call_direct\<close> reads it:
  the token counts of \<open>completion.usage\<close>, which the vendor's type declares optional,
  and, of each choice, the message content and the JSON dump of the parsed message.
\<close>

record CompletionUsage =
  total_tokens :: int
  prompt_tokens :: int
  completion_tokens :: int

record ChoiceMessage =
  msg_content :: string
  msg_parsed_json :: string

record ChatCompletion =
  usage :: "CompletionUsage option"
  choices :: "ChoiceMessage list"

record UsageAPICallCreate =
  uc_user_uuid :: string
  uc_api_provider :: string
  uc_target_model_name :: string
  uc_endpoint :: string
  uc_success :: bool
  uc_total_token_count :: int
  uc_start_timestamp_in_ms :: int
  uc_end_timestamp_in_ms :: int
  uc_is_batch :: bool
  uc_system_prompt :: string
  uc_user_prompt :: string
  uc_call_target :: "string option"
  uc_input_token_count :: int
  uc_output_token_count :: int

section \<open>State: the stores and the trace\<close>

text \<open>
  The repositories are maps keyed by the docsource identifier; the usage store is the
  list of the records written to it. The trace lists, in the order they happen, the log
  lines a function writes, the lines it prints and the calls it makes to its
  collaborators. The event of a call carries what the call gave back: whether the
  scheduler started, whether the wait saw the source finish, the exception a stage
  raised, if it raised one, and what the vendor's completion call returned or raised.
\<close>

record repo =
  docsources :: "string \<rightharpoonup> DocSource"
  docs_by_source :: "string \<rightharpoonup> Document list"

datatype event =
    LogDebug string
  | LogInfo string
  | LogWarning string
  | LogError string
  | Echo string
  | CallCreateDocsource DocSource
  | CallUpdateDocsource DocSource
  | CallRunScheduler bool
  | CallWaitForDocsource string nat bool
  | CallSearchAndScrape string string "exn option"
  | CallAdhocPipeline nat "exn option"
  | CallProcessAuto "string list" "exn option"
  | CallProcessManual string "exn option"
  | CallGetDocuments string
  | CallInference string string string
  | CallCompletion bool "exn + ChatCompletion option"

record world =
  repo :: repo
  usage_store :: "UsageAPICallCreate list"
  trace :: "event list"

definition emit :: "event \<Rightarrow> world \<Rightarrow> world" where
  "emit e w = w\<lparr>trace := trace w @ [e]\<rparr>"

definition log_info :: "string \<Rightarrow> world \<Rightarrow> world" where
  "log_info msg w = emit (LogInfo msg) w"

definition log_warning :: "string \<Rightarrow> world \<Rightarrow> world" where
  "log_warning msg w = emit (LogWarning msg) w"

definition log_error :: "string \<Rightarrow> world \<Rightarrow> world" where
  "log_error msg w = emit (LogError msg) w"

definition log_debug :: "string \<Rightarrow> world \<Rightarrow> world" where
  "log_debug msg w = emit (LogDebug msg) w"

subsection \<open>The docsource store\<close>

text \<open>
  Modelled from the spec: the docsource store is an external collaborator that honours
  the create/read/update contract (section 6). \<open>create_docsource\<close> stores a new record
  under the identifier the store assigns, in status \<open>CREATED\<close>; \<open>update_docsource\<close>
  overwrites the record stored under the identifier of the one it is given. The store
  has no operation that the modelled code calls to delete a record.
\<close>

definition create_docsource :: "string \<Rightarrow> DocSourceCreate \<Rightarrow> world \<Rightarrow> DocSource \<times> world" where
  "create_docsource uuid dc w =
     (let d = \<lparr>docsource_uuid = uuid, ds_kb_id = dc_kb_id dc,
                ds_source_type = dc_source_type dc, ds_uri = dc_uri dc,
                ds_display_name = dc_display_name dc, source_status = CREATED,
                ds_ingest_config = dc_ingest_config dc\<rparr>
      in (d, emit (CallCreateDocsource d)
               (w\<lparr>repo := (repo w)\<lparr>docsources := (docsources (repo w))(uuid \<mapsto> d)\<rparr>\<rparr>)))"

definition update_docsource :: "DocSource \<Rightarrow> world \<Rightarrow> world" where
  "update_docsource d w =
     emit (CallUpdateDocsource d)
       (w\<lparr>repo := (repo w)\<lparr>docsources := (docsources (repo w))(docsource_uuid d \<mapsto> d)\<rparr>\<rparr>)"

definition get_docsource :: "world \<Rightarrow> string \<Rightarrow> DocSource option" where
  "get_docsource w uuid = docsources (repo w) uuid"

section \<open>StepSearchToDocsource\<close>

text \<open>
  The collaborators of \<open>step_search_to_docsource.py\<close> whose code lies outside the
  modelled files are parameters. Each one that can touch the stores is a function on the
  repositories; the ones that can fail return the exception as a value. The first five
  fields are the results of \<open>config_utils.get_str_option_value\<close>,
  \<open>search_utils.get_common_search_paras\<close>, \<open>datetime.now().strftime\<close> and of the
  identifier generation of the store. Collaborators are taken not to mutate the
  \<open>DocSource\<close> object they are handed.
\<close>

record search_env =
  env_retriever_type :: string
  env_days_limit :: int
  env_max_results :: int
  env_timestamp :: string
  env_new_uuid :: string
  env_run_scheduler :: "repo \<Rightarrow> bool \<times> repo"
  env_wait_for_docsource :: "repo \<Rightarrow> DocSource \<Rightarrow> nat \<Rightarrow> bool \<times> repo"
  env_search_and_scrape ::
    "repo \<Rightarrow> string \<Rightarrow> DocSource \<Rightarrow> (exn + DocSinkCreate list option) \<times> repo"
  env_run_adhoc_pipeline ::
    "repo \<Rightarrow> DocSinkCreate list \<Rightarrow> (exn + Document list) \<times> repo"

definition raised :: "exn + 'a \<Rightarrow> exn option" where
  "raised res = (case res of Inl e \<Rightarrow> Some e | Inr v \<Rightarrow> None)"

definition call_run_scheduler :: "search_env \<Rightarrow> world \<Rightarrow> bool \<times> world" where
  "call_run_scheduler env w =
     (case env_run_scheduler env (repo w) of
        (started, r) \<Rightarrow> (started, emit (CallRunScheduler started) (w\<lparr>repo := r\<rparr>)))"

definition call_wait_for_docsource ::
  "search_env \<Rightarrow> DocSource \<Rightarrow> nat \<Rightarrow> world \<Rightarrow> bool \<times> world" where
  "call_wait_for_docsource env d timeout_in_secs w =
     (case env_wait_for_docsource env (repo w) d timeout_in_secs of
        (finished, r) \<Rightarrow>
          (finished,
           emit (CallWaitForDocsource (docsource_uuid d) timeout_in_secs finished) (w\<lparr>repo := r\<rparr>)))"

definition call_search_and_scrape ::
  "search_env \<Rightarrow> string \<Rightarrow> DocSource \<Rightarrow> world \<Rightarrow> (exn + DocSinkCreate list option) \<times> world" where
  "call_search_and_scrape env query d w =
     (case env_search_and_scrape env (repo w) query d of
        (res, r) \<Rightarrow>
          (res, emit (CallSearchAndScrape query (docsource_uuid d) (raised res)) (w\<lparr>repo := r\<rparr>)))"

definition call_run_adhoc_pipeline ::
  "search_env \<Rightarrow> DocSinkCreate list \<Rightarrow> world \<Rightarrow> (exn + Document list) \<times> world" where
  "call_run_adhoc_pipeline env docsink_create_list w =
     (case env_run_adhoc_pipeline env (repo w) docsink_create_list of
        (res, r) \<Rightarrow>
          (res, emit (CallAdhocPipeline (length docsink_create_list) (raised res)) (w\<lparr>repo := r\<rparr>)))"

text \<open>
  \<open>_create_docsrc_for_search\<close> (the leading underscore is dropped): builds the
  \<open>DocSourceCreate\<close> of a search and creates it in the store. The chat query item is
  the \<open>exec_info.target_chat_query_item\<close> that \<open>run_step\<close> has checked.
\<close>

definition create_docsrc_for_search ::
  "search_env \<Rightarrow> ExecInfo \<Rightarrow> ChatQueryItem \<Rightarrow> string \<Rightarrow> world \<Rightarrow> DocSource \<times> world" where
  "create_docsrc_for_search env exec_info chat_query_item search_keywords w =
     (let flow_options = (case ei_flow_options exec_info of None \<Rightarrow> [] | Some fo \<Rightarrow> fo);
          retriever_type = env_retriever_type env;
          days_limit = env_days_limit env;
          max_results = env_max_results env;
          w1 = log_info (''[Status]Searching the web with '' @ retriever_type @ '' ...'') w;
          timestamp = env_timestamp env;
          docsource_create =
            \<lparr>dc_org_id = None,
             dc_kb_id = kb_id (ei_kb exec_info),
             dc_source_type = SEARCH,
             dc_uri = ''search://'' @ retriever_type @ ''?q='' @ search_keywords
                      @ ''&date_range='' @ str_int days_limit
                      @ ''&max_results='' @ str_int max_results @ ''&ts='' @ timestamp,
             dc_display_name = search_keywords,
             dc_ingest_config =
               Some \<lparr>ic_flow_options = flow_options,
                     ic_extra_parameters =
                       [(''chat_id'', chat_id chat_query_item),
                        (''query_id'', query_id chat_query_item)]\<rparr>\<rparr>
      in create_docsource (env_new_uuid env) docsource_create w1)"

text \<open>
  \<open>_run_web_search_pipeline\<close>: the synchronous pipeline. On success it returns the
  documents and the docsource object, whose status it has set; an exception of a stage
  leaves the function at once.
\<close>

definition run_web_search_pipeline ::
  "search_env \<Rightarrow> ExecInfo \<Rightarrow> DocSource \<Rightarrow> world \<Rightarrow> (exn + Document list \<times> DocSource) \<times> world" where
  "run_web_search_pipeline env exec_info docsource w =
     (case ei_target_chat_query_item exec_info of
        None \<Rightarrow> (Inl (AttributeError ''query_content''), w)
      | Some item \<Rightarrow>
         (let query = query_content item
          in case call_search_and_scrape env query docsource w of
               (Inl e, w1) \<Rightarrow> (Inl e, w1)
             | (Inr docsink_create_list, w1) \<Rightarrow>
                 (if docsink_create_list = None \<or> length (the docsink_create_list) = 0
                  then (let w2 = log_warning (''No results found for the query '' @ query @ ''.'') w1;
                            docsource' = docsource\<lparr>source_status := COMPLETED\<rparr>
                        in (Inr ([], docsource'), update_docsource docsource' w2))
                  else (case call_run_adhoc_pipeline env (the docsink_create_list) w1 of
                          (Inl e, w2) \<Rightarrow> (Inl e, w2)
                        | (Inr success_documents, w2) \<Rightarrow>
                            (let docsource' = docsource\<lparr>source_status := COMPLETED\<rparr>
                             in (Inr (success_documents, docsource'),
                                 update_docsource docsource' w2))))))"

text \<open>
  \<open>StepSearchToDocsource.run_step\<close>. The result is the returned docsource or the
  exception that leaves the function, with the world after the call.
\<close>

definition run_step ::
  "search_env \<Rightarrow> ExecInfo \<Rightarrow> string option \<Rightarrow> world \<Rightarrow> (exn + DocSource) \<times> world" where
  "run_step env exec_info search_keywords_arg w =
     (case ei_target_chat_query_item exec_info of
        None \<Rightarrow> (Inl (UnexpectedCaseException ''The chat query item is not provided.''), w)
      | Some item \<Rightarrow>
         (let search_keywords =
                (case search_keywords_arg of None \<Rightarrow> query_content item | Some k \<Rightarrow> k);
              w1 = log_info (''Searching the web for query: '' @ search_keywords) w
          in case create_docsrc_for_search env exec_info item search_keywords w1 of
               (docsource, w2) \<Rightarrow>
                 (if auto_schedule (ei_kb exec_info)
                  then
                    (case (if ei_scheduler_is_running exec_info
                           then (False, log_info ''Scheduled the new DocSource to be processed ...'' w2)
                           else call_run_scheduler env
                                  (log_info ''Start the scheduler to process the new DocSource ...'' w2)) of
                       (started, w3) \<Rightarrow>
                         (if started = False
                          then (case call_wait_for_docsource env docsource 300 w3 of
                                  (finished, w4) \<Rightarrow>
                                    (if finished = False
                                     then (Inr docsource,
                                           log_warning
                                             ''The document source has not finished processing yet.'' w4)
                                     else (let w5 = log_info
                                                      ''The document source has finished processing.'' w4;
                                               docsource' = docsource\<lparr>source_status := COMPLETED\<rparr>
                                           in (Inr docsource', update_docsource docsource' w5))))
                          else (Inr docsource, w3)))
                  else
                    (let w3 = log_info ''[Status]Start the document process pipeline ...'' w2
                     in case run_web_search_pipeline env exec_info docsource w3 of
                          (Inr (success_documents, docsource'), w4) \<Rightarrow>
                            (Inr docsource',
                             log_info (''Successfully processed ''
                                       @ str_nat (length success_documents) @ '' documents.'') w4)
                        | (Inl e, w4) \<Rightarrow>
                            (let w5 = log_error
                                        (''Failed to run the web search pipeline: '' @ str_exn e) w4;
                                 docsource' = docsource\<lparr>source_status := FAILED\<rparr>
                             in (Inl e, update_docsource docsource' w5))))))"

section \<open>StepPlanTopic\<close>

record PromptBase =
  prompt_template :: string
  prompt_variables :: "(string \<times> string) list"

datatype Topic = Topic string string

type_synonym TopicList = "Topic list"

definition COMPONENT_NAME :: string where
  "COMPONENT_NAME = ''plan_topic''"

definition topic_plan_template_str :: string where
  \<open>topic_plan_template_str =
       ''\<newline>''
     @ ''{{ context_presentation }}, {{ num_of_section_instruction }} \<newline>''
     @ ''from the content as the outline for {{ article_style }} for this subject:\<newline>''
     @ ''\<newline>''
     @ ''{{ query }}\<newline>''
     @ ''\<newline>''
     @ ''{{ content_instruction }}\<newline>''
     @ ''\<newline>''
     @ ''Please create the title for each topic {{ output_lang_instruction }}\<newline>''
     @ ''For each topic, also generate a prompt {{ search_lang_instruction }}\<newline>''
     @ ''that can guide the LLM to find the most relevant information and write a detailed section\<newline>''
     @ ''about it. \<newline>''
     @ ''\<newline>''
     @ ''{{ json_format_instruction }}\<newline>''
     @ ''\<newline>''
     @ ''{\<newline>''
     @ ''    "topics": [\<newline>''
     @ ''        { "title": "Topic 1", "prompt": "Prompt for topic 1" },\<newline>''
     @ ''        { "title": "Topic 2", "prompt": "Prompt for topic 2" }\<newline>''
     @ ''    ]\<newline>''
     @ ''}\<newline>''
     @ ''\<newline>''
     @ ''Here is the related content:\<newline>''
     @ ''{{ content }}\<newline>''\<close>

text \<open>
  \<open>StepPlanTopic.used_prompt_templates\<close>: a dict with one entry. The dict of the prompt
  variables is the list of its items, in the order Python iterates over them.
\<close>

definition used_prompt_templates :: "(string \<times> PromptBase) list" where
  "used_prompt_templates =
     [(COMPONENT_NAME,
       \<lparr>prompt_template = topic_plan_template_str,
        prompt_variables =
          [(''context_presentation'', ''The context presentation.''),
           (''num_of_section_instruction'', ''The instruction for the number of sections.''),
           (''article_style'', ''The style of the article.''),
           (''query'', ''The query.''),
           (''content_instruction'', ''The instruction for the content.''),
           (''output_lang_instruction'', ''The output language.''),
           (''search_lang_instruction'', ''The search language.''),
           (''json_format_instruction'', ''The instruction for the JSON format.''),
           (''content'', ''The content.'')]\<rparr>)]"

text \<open>
  The collaborators of \<open>step_plan_topic.py\<close>: the values that the option lookups of
  \<open>config_utils\<close>, \<open>flow_util\<close> and \<open>prompt_util\<close> return, and the functions that
  shorten the content, render the template, call the model and parse its answer.
\<close>

record plan_env =
  pe_article_style :: string
  pe_planning_model :: string
  pe_content_instruction :: string
  pe_context_presentation :: string
  pe_output_lang_instruction :: string
  pe_search_lang_instruction :: string
  pe_json_format_instruction :: string
  pe_limit_content :: "string \<Rightarrow> string \<Rightarrow> string"
  pe_render_template :: "string \<Rightarrow> (string \<times> string) list \<Rightarrow> string"
  pe_run_inference_call :: "string \<Rightarrow> string \<Rightarrow> string \<Rightarrow> exn + string"
  pe_model_validate_json :: "string \<Rightarrow> exn + TopicList"

text \<open>
  The loop of lines 218 to 220: the first declared variable that the template variables
  do not hold raises \<open>MissingParametersException\<close>.
\<close>

fun check_prompt_variables :: "string list \<Rightarrow> (string \<times> string) list \<Rightarrow> exn + unit" where
  "check_prompt_variables [] template_vars = Inr ()"
| "check_prompt_variables (var # vars) template_vars =
     (if map_of template_vars var = None then Inl (MissingParametersException var)
      else check_prompt_variables vars template_vars)"

text \<open>
  Lines 218 to 233 of \<open>_step_plan_topic_for_style\<close>, with the prompt and the template
  variables it has built as arguments: check the variables, render the prompt, call the
  model, parse the answer.
\<close>

definition plan_topic_check_and_call ::
  "plan_env \<Rightarrow> PromptBase \<Rightarrow> (string \<times> string) list \<Rightarrow> string \<Rightarrow> string \<Rightarrow> world
     \<Rightarrow> (exn + TopicList) \<times> world" where
  "plan_topic_check_and_call env prompt_base template_vars system_prompt planning_model w =
     (case check_prompt_variables (map fst (prompt_variables prompt_base)) template_vars of
        Inl e \<Rightarrow> (Inl e, w)
      | Inr u \<Rightarrow>
          (let user_prompt = pe_render_template env (prompt_template prompt_base) template_vars;
               w1 = emit (CallInference system_prompt user_prompt planning_model) w
           in case pe_run_inference_call env system_prompt user_prompt planning_model of
                Inl e \<Rightarrow> (Inl e, w1)
              | Inr response_str \<Rightarrow>
                  (case pe_model_validate_json env response_str of
                     Inl e \<Rightarrow> (Inl e, w1)
                   | Inr topic_list \<Rightarrow> (Inr topic_list, w1))))"

definition step_plan_topic_for_style ::
  "plan_env \<Rightarrow> string \<Rightarrow> string \<Rightarrow> int option \<Rightarrow> world \<Rightarrow> (exn + TopicList) \<times> world" where
  "step_plan_topic_for_style env query content0 num_of_sections w =
     (let w1 = log_info ''[Status]Planning topics for research article.'' w;
          num_of_section_instruction =
            (if num_of_sections = None \<or> num_of_sections = Some 0
             then ''generate a list of most relevant topics''
             else if num_of_sections = Some 1 then ''generate a topic''
             else ''generate '' @ str_int (the num_of_sections) @ '' most relevant topics'');
          article_style = pe_article_style env;
          planning_model = pe_planning_model env;
          content_instruction = pe_content_instruction env;
          w2 = log_info (''Using '' @ planning_model @ '' to generate the topic for research.'') w1;
          content = pe_limit_content env content0 planning_model;
          system_prompt =
            ''You are an expert of writing '' @ article_style @ '' for the specified query.''
      in case map_of used_prompt_templates COMPONENT_NAME of
           None \<Rightarrow> (Inl (KeyError COMPONENT_NAME), w2)
         | Some prompt_base \<Rightarrow>
             (let template_vars =
                    [(''context_presentation'', pe_context_presentation env),
                     (''num_of_section_instruction'', num_of_section_instruction),
                     (''article_style'', article_style),
                     (''query'', query),
                     (''content_instruction'', content_instruction),
                     (''output_lang_instruction'', pe_output_lang_instruction env),
                     (''search_lang_instruction'', pe_search_lang_instruction env),
                     (''json_format_instruction'', pe_json_format_instruction env),
                     (''content'', content)]
              in plan_topic_check_and_call env prompt_base template_vars system_prompt
                   planning_model w2))"

text \<open>\<open>StepPlanTopic.run_step\<close>: reads the query and the number of sections.\<close>

definition plan_topic_run_step ::
  "plan_env \<Rightarrow> ExecInfo \<Rightarrow> int option \<Rightarrow> string \<Rightarrow> world \<Rightarrow> (exn + TopicList) \<times> world" where
  "plan_topic_run_step env exec_info num_of_sections content w =
     (case ei_target_chat_query_item exec_info of
        None \<Rightarrow> (Inl (AttributeError ''query_content''), w)
      | Some item \<Rightarrow>
          step_plan_topic_for_style env (query_content item) content num_of_sections w)"

section \<open>The add\_url command\<close>

text \<open>
  The context the command obtains from the \<open>ContextManager\<close>, as far as it sets it.
\<close>

record cli_context =
  ctx_is_svc :: bool
  ctx_name :: string
  ctx_scheduler_is_running :: bool
  ctx_DEFAULT_CHUNK_SIZE :: int

text \<open>
  The collaborators of \<open>kb_add_url.py\<close>: the organisation and the knowledge base that
  \<open>setup_org_kb_user\<close> returns, Python's \<open>int\<close> on a string (\<open>Inl\<close> the message of
  its \<open>ValueError\<close>), the identifier the store assigns, and the two entry points of
  \<open>pipeline_utils\<close>, which may change the repositories and may raise.
\<close>

record cli_env =
  ce_org :: Org
  ce_kb :: KnowledgeBase
  ce_int :: "string \<Rightarrow> string + int"
  ce_new_uuid :: string
  ce_process_docsources_auto ::
    "cli_context \<Rightarrow> repo \<Rightarrow> DocSource list \<Rightarrow> exn option \<times> repo"
  ce_process_docsource_manual ::
    "cli_context \<Rightarrow> repo \<Rightarrow> DocSource \<Rightarrow> exn option \<times> repo"


definition call_process_docsource_manual ::
  "cli_env \<Rightarrow> cli_context \<Rightarrow> DocSource \<Rightarrow> world \<Rightarrow> exn option \<times> world" where
  "call_process_docsource_manual env ctx d w =
     (case ce_process_docsource_manual env ctx (repo w) d of
        (res, r) \<Rightarrow> (res, emit (CallProcessManual (docsource_uuid d) res) (w\<lparr>repo := r\<rparr>)))"

text \<open>
  Modelled from the spec: the document store's \<open>list_for(source)\<close> read (section 6),
  \<open>get_documents_for_docsource\<close> in the source: the documents stored for the source,
  none when the store holds nothing for it.
\<close>

definition get_documents_for_docsource :: "DocSource \<Rightarrow> world \<Rightarrow> Document list \<times> world" where
  "get_documents_for_docsource d w =
     ((case docs_by_source (repo w) (docsource_uuid d) of None \<Rightarrow> [] | Some ds \<Rightarrow> ds),
      emit (CallGetDocuments (docsource_uuid d)) w)"


definition newline :: string where
  "newline = [CHR 0x0A]"


section \<open>run\_inference\_call\_direct\<close>

text \<open>
  A value of the model options, a \<open>Dict[str, Any]\<close>: \<open>None\<close>, an integer, a float, a
  string, or any other object (a list, a dict, ...), kept by its \<open>repr\<close>.
\<close>

datatype py_value = PyNone | PyInt int | PyFloat pyfloat | PyStr string | PyOther string

datatype response_format = JsonSchema string | JsonObject | TextFormat

record completion_request =
  rq_use_parsed :: bool
  rq_model :: string
  rq_system_prompt :: string
  rq_user_prompt :: string
  rq_temperature :: pyfloat
  rq_max_tokens :: "int option"
  rq_response_format :: response_format

text \<open>
  The collaborators of \<open>run_inference_call_direct\<close>: the settings; Python's \<open>float\<close>
  and \<open>int\<close>, which return the converted value or raise (\<open>ValueError\<close> for a string
  that does not parse, \<open>TypeError\<close> for an object that is neither a string nor a number,
  \<open>OverflowError\<close> for an integer beyond the floats and for an infinite float); Python's
  \<open>str\<close>; the two readings of the clock; the vendor's client (one function for
  \<open>beta.chat.completions.parse\<close> and \<open>chat.completions.create\<close>, told apart by
  \<open>rq_use_parsed\<close>) and the \<open>re.sub\<close> that strips the JSON fences.
\<close>

record inference_env =
  ie_settings :: SystemSettings
  ie_float :: "py_value \<Rightarrow> exn + pyfloat"
  ie_int :: "py_value \<Rightarrow> exn + int"
  ie_str :: "py_value \<Rightarrow> string"
  ie_start_timestamp_in_ms :: int
  ie_end_timestamp_in_ms :: int
  ie_completions :: "completion_request \<Rightarrow> exn + ChatCompletion option"
  ie_strip_json_fences :: "string \<Rightarrow> string"

text \<open>\<open>except ValueError as e\<close>: the message of the exception when the clause catches it.\<close>

fun value_error_message :: "exn \<Rightarrow> string option" where
  "value_error_message (ValueError m) = Some m"
| "value_error_message e = None"

definition dict_get :: "(string \<times> py_value) list \<Rightarrow> string \<Rightarrow> py_value" where
  "dict_get d k = (case map_of d k of None \<Rightarrow> PyNone | Some v \<Rightarrow> v)"

definition API_CALL_ENDPOINT_COMPLETION :: string where
  "API_CALL_ENDPOINT_COMPLETION = ''completion''"

definition record_api_call :: "UsageAPICallCreate \<Rightarrow> world \<Rightarrow> world" where
  "record_api_call u w = w\<lparr>usage_store := usage_store w @ [u]\<rparr>"

text \<open>
  Lines 70 to 84: the temperature of the call. An exception of \<open>float\<close> that is not a
  \<open>ValueError\<close> is not caught and leaves the function.
\<close>

definition resolve_temperature ::
  "inference_env \<Rightarrow> (string \<times> py_value) list \<Rightarrow> world \<Rightarrow> (exn + pyfloat) \<times> world" where
  "resolve_temperature env model_options w =
     (let settings = ie_settings env;
          temperature0 = dict_get model_options ''temperature''
      in case (if temperature0 = PyNone then Inr (DEFAULT_TEMPERATURE settings, w)
               else (case ie_float env temperature0 of
                       Inr t \<Rightarrow> Inr (t, w)
                     | Inl e \<Rightarrow>
                         (case value_error_message e of
                            Some m \<Rightarrow>
                              Inr (DEFAULT_TEMPERATURE settings,
                                   log_warning (''Error in parsing temperature ''
                                                @ ie_str env temperature0 @ '': '' @ m) w)
                          | None \<Rightarrow> Inl e))) of
           Inl e \<Rightarrow> (Inl e, w)
         | Inr (temperature1, w1) \<Rightarrow>
             (if float_lt temperature1 0 \<or> float_gt temperature1 2
              then (Inr (DEFAULT_TEMPERATURE settings),
                    log_error (''Invalid temperature '' @ ie_str env (PyFloat temperature1)
                               @ '' out of range [0, 2]. Using default.'') w1)
              else (Inr temperature1, w1)))"

text \<open>
  Lines 86 to 100: the token limit of the call. An exception of \<open>int\<close> that is not a
  \<open>ValueError\<close> is not caught and leaves the function.
\<close>

definition resolve_max_tokens ::
  "inference_env \<Rightarrow> (string \<times> py_value) list \<Rightarrow> world \<Rightarrow> (exn + int option) \<times> world" where
  "resolve_max_tokens env model_options w =
     (let settings = ie_settings env;
          max_tokens0 = dict_get model_options ''max_tokens''
      in if max_tokens0 = PyNone
         then (if DEFAULT_MAX_TOKENS settings = - 1 then (Inr None, w)
               else (Inr (Some (DEFAULT_MAX_TOKENS settings)), w))
         else if max_tokens0 = PyStr []
         then (Inr None, w)
         else (case ie_int env max_tokens0 of
                 Inr n \<Rightarrow> (Inr (Some n), w)
               | Inl e \<Rightarrow>
                   (case value_error_message e of
                      Some m \<Rightarrow>
                        (Inr None,
                         log_error (''Error in parsing max tokens '' @ ie_str env max_tokens0
                                    @ '': '' @ m) w)
                    | None \<Rightarrow> (Inl e, w))))"

text \<open>
  Lines 154 to 203 of \<open>run_inference_call_direct\<close>, given what the vendor's call of
  lines 120 to 153 returned or raised (\<open>outcome\<close>): the rest of the \<open>try\<close> block, the
  \<open>finally\<close> block and the extraction of the response. \<open>raised\<close> is the exception
  that leaves the \<open>try\<close> block: the vendor's, or the \<open>AttributeError\<close> of
  \<open>completion.usage.total_tokens\<close> at line 155 when the call returned \<open>None\<close> or a
  completion without usage. The \<open>finally\<close> block runs in every case. \<open>counts\<close> is what
  its lines 159 to 168 compute: with a completion without usage, line 161 raises an
  \<open>AttributeError\<close> that leaves the \<open>finally\<close> block before \<open>record_api_call\<close>.
  Otherwise the record is written and the exception of the \<open>try\<close> block, if any,
  propagates.
\<close>

definition finish_inference_call ::
  "inference_env \<Rightarrow> string \<Rightarrow> string \<Rightarrow> string \<Rightarrow> string \<Rightarrow> string \<Rightarrow> bool option
     \<Rightarrow> string option \<Rightarrow> bool \<Rightarrow> exn + ChatCompletion option \<Rightarrow> world
     \<Rightarrow> (exn + string \<times> ChatCompletion) \<times> world" where
  "finish_inference_call env user_uuid api_provider_name model_name system_prompt user_prompt
       need_json call_target use_parsed outcome w5 =
     (let start_timestamp_in_ms = ie_start_timestamp_in_ms env;
          (completion, raised, w6) =
            (case outcome of
               Inl e \<Rightarrow> (None, Some e, w5)
             | Inr None \<Rightarrow> (None, Some (AttributeError ''usage''), w5)
             | Inr (Some c) \<Rightarrow>
                 (case usage c of
                    None \<Rightarrow> (Some c, Some (AttributeError ''total_tokens''), w5)
                  | Some us \<Rightarrow>
                      (Some c, None,
                       log_info (''('' @ str_int (total_tokens us) @ '') tokens used for (''
                                 @ (case call_target of None \<Rightarrow> ''None'' | Some t \<Rightarrow> t)
                                 @ '').'') w5)));
          end_timestamp_in_ms = ie_end_timestamp_in_ms env;
          counts =
            (case completion of
               Some c \<Rightarrow>
                 (case usage c of
                    None \<Rightarrow> Inl (AttributeError ''total_tokens'')
                  | Some us \<Rightarrow>
                      Inr (True, total_tokens us, prompt_tokens us, completion_tokens us))
             | None \<Rightarrow> Inr (False, 0, - 1, - 1))
      in case counts of
           Inl e \<Rightarrow> (Inl e, w6)
         | Inr (success, total_token_count, input_token_count, output_token_count) \<Rightarrow>
     (let usage_api_call =
            \<lparr>uc_user_uuid = user_uuid, uc_api_provider = api_provider_name,
             uc_target_model_name = model_name, uc_endpoint = API_CALL_ENDPOINT_COMPLETION,
             uc_success = success, uc_total_token_count = total_token_count,
             uc_start_timestamp_in_ms = start_timestamp_in_ms,
             uc_end_timestamp_in_ms = end_timestamp_in_ms, uc_is_batch = False,
             uc_system_prompt = system_prompt, uc_user_prompt = user_prompt,
             uc_call_target = call_target, uc_input_token_count = input_token_count,
             uc_output_token_count = output_token_count\<rparr>;
          w7 = record_api_call usage_api_call w6
      in case raised of
           Some e \<Rightarrow> (Inl e, w7)
         | None \<Rightarrow>
             (case completion of
                None \<Rightarrow>
                  (Inl (UnexpectedOperationFailureException
                          (''OpenAI completion for ''
                           @ (case call_target of None \<Rightarrow> ''None'' | Some t \<Rightarrow> t))
                          ''Completion is None.''), w7)
              | Some c \<Rightarrow>
                  (case choices c of
                     [] \<Rightarrow> (Inl (IndexError ''list index out of range''), w7)
                   | m # ms \<Rightarrow>
                       (if use_parsed then (Inr (msg_parsed_json m, c), w7)
                        else (let response_str = msg_content m;
                                  w8 = log_debug (''Response from inference call'' @ newline @ '': ''
                                                  @ response_str) w7
                              in if need_json = Some True
                                 then (let response_str' = ie_strip_json_fences env response_str
                                       in (Inr (response_str', c),
                                           log_debug (''Clean up: '' @ response_str') w8))
                                 else (Inr (response_str, c), w8)))))))"


section \<open>The scheduler's retry policy\<close>

text \<open>
  Modelled from the spec: the scheduler and its retry policy are not among the source
  files; only the settings the policy reads are (\<open>settings.py\<close>). Section 8: the retry
  delay for attempt \<open>k\<close> equals \<open>min(base_delay * 2^(k-1), max_delay)\<close>. Section 4.1: a
  source exceeding the configured max-retries is marked permanently FAILED and is not
  re-submitted. Attempts count from 1.
\<close>

definition retry_delay :: "SystemSettings \<Rightarrow> nat \<Rightarrow> int" where
  "retry_delay s k =
     min (scheduler_base_delay_in_seconds s * 2 ^ (k - 1)) (scheduler_max_delay_in_seconds s)"

text \<open>
  Modelled from the spec: what the scheduler does with a source whose task has failed for
  the \<open>attempt_count\<close>-th time (section 4.1, retry policy): submit it again after the
  retry delay, or mark it permanently failed.
\<close>

datatype retry_decision = Resubmit int | PermanentlyFailed

definition on_task_failure :: "SystemSettings \<Rightarrow> nat \<Rightarrow> retry_decision" where
  "on_task_failure s attempt_count =
     (if int attempt_count > scheduler_max_retries s then PermanentlyFailed
      else Resubmit (retry_delay s attempt_count))"

section \<open>Reading a trace\<close>

text \<open>
  The events a call adds to the trace, and the projections of a list of events that the
  theorems speak about.
\<close>

definition new_events :: "world \<Rightarrow> world \<Rightarrow> event list" where
  "new_events w w' = drop (length (trace w)) (trace w')"

fun status_write_of :: "event \<Rightarrow> (string \<times> DocSourceStatus) list" where
  "status_write_of (CallUpdateDocsource d) = [(docsource_uuid d, source_status d)]"
| "status_write_of e = []"

definition status_writes :: "event list \<Rightarrow> (string \<times> DocSourceStatus) list" where
  "status_writes evs = concat (map status_write_of evs)"

fun wait_call_of :: "event \<Rightarrow> (string \<times> nat \<times> bool) list" where
  "wait_call_of (CallWaitForDocsource u t f) = [(u, t, f)]"
| "wait_call_of e = []"

definition wait_calls :: "event list \<Rightarrow> (string \<times> nat \<times> bool) list" where
  "wait_calls evs = concat (map wait_call_of evs)"

fun scheduler_start_of :: "event \<Rightarrow> bool list" where
  "scheduler_start_of (CallRunScheduler b) = [b]"
| "scheduler_start_of e = []"

definition scheduler_starts :: "event list \<Rightarrow> bool list" where
  "scheduler_starts evs = concat (map scheduler_start_of evs)"



fun warning_of :: "event \<Rightarrow> string list" where
  "warning_of (LogWarning m) = [m]"
| "warning_of e = []"

definition warnings :: "event list \<Rightarrow> string list" where
  "warnings evs = concat (map warning_of evs)"









fun inference_call_of :: "event \<Rightarrow> (string \<times> string \<times> string) list" where
  "inference_call_of (CallInference s u m) = [(s, u, m)]"
| "inference_call_of e = []"

definition inference_calls :: "event list \<Rightarrow> (string \<times> string \<times> string) list" where
  "inference_calls evs = concat (map inference_call_of evs)"

fun completion_outcome_of :: "event \<Rightarrow> (exn + ChatCompletion option) list" where
  "completion_outcome_of (CallCompletion p r) = [r]"
| "completion_outcome_of e = []"

definition completion_outcomes :: "event list \<Rightarrow> (exn + ChatCompletion option) list" where
  "completion_outcomes evs = concat (map completion_outcome_of evs)"

section \<open>Concrete inputs\<close>

text \<open>The inputs at which the theorems below are evaluated.\<close>

definition w0 :: world where
  "w0 = \<lparr>repo = \<lparr>docsources = Map.empty, docs_by_source = Map.empty\<rparr>,
         usage_store = [], trace = []\<rparr>"

definition demo_item :: ChatQueryItem where
  "demo_item = \<lparr>query_content = ''llm agents'', chat_id = ''chat-1'', query_id = ''query-1''\<rparr>"

definition demo_org :: Org where
  "demo_org = \<lparr>org_id = ''org-default-id'', org_name = ''org-default''\<rparr>"

definition demo_kb :: "bool \<Rightarrow> KnowledgeBase" where
  "demo_kb a = \<lparr>kb_id = ''kb-1'', kb_name = ''kb-default'', auto_schedule = a\<rparr>"

definition demo_exec_info :: "bool \<Rightarrow> bool \<Rightarrow> ExecInfo" where
  "demo_exec_info a running =
     \<lparr>ei_org = demo_org, ei_kb = demo_kb a, ei_scheduler_is_running = running,
      ei_target_chat_query_item = Some demo_item, ei_flow_options = None\<rparr>"

text \<open>
  A search environment whose scheduler does not start, whose wait reports \<open>finished\<close>, whose
  search returns \<open>found\<close> and whose pipeline returns \<open>piped\<close>; no collaborator touches
  the repositories.
\<close>

definition demo_search_env ::
  "bool \<Rightarrow> exn + DocSinkCreate list option \<Rightarrow> exn + Document list \<Rightarrow> search_env" where
  "demo_search_env finished found piped =
     \<lparr>env_retriever_type = ''google'', env_days_limit = 0, env_max_results = 10,
      env_timestamp = ''2025-01-01-00-00-00'', env_new_uuid = ''ds-1'',
      env_run_scheduler = (\<lambda>r. (False, r)),
      env_wait_for_docsource = (\<lambda>r d t. (finished, r)),
      env_search_and_scrape = (\<lambda>r q d. (found, r)),
      env_run_adhoc_pipeline = (\<lambda>r l. (piped, r))\<rparr>"

definition demo_plan_env :: plan_env where
  "demo_plan_env =
     \<lparr>pe_article_style = ''news'', pe_planning_model = ''gpt-4o-mini'',
      pe_content_instruction = ''Please only include the topics related to the above subject most.'',
      pe_context_presentation = ''Given the context'', pe_output_lang_instruction = ''in English'',
      pe_search_lang_instruction = ''in English'', pe_json_format_instruction = ''Return JSON'',
      pe_limit_content = (\<lambda>c m. c),
      pe_render_template = (\<lambda>t vs. t),
      pe_run_inference_call = (\<lambda>s u m. Inr ''{}''),
      pe_model_validate_json = (\<lambda>s. Inr [])\<rparr>"

definition demo_prompt_base :: PromptBase where
  "demo_prompt_base =
     \<lparr>prompt_template = ''{{ query }} {{ content }}'',
      prompt_variables = [(''query'', ''The query.''), (''content'', ''The content.'')]\<rparr>"








section \<open>Projections of the state operations\<close>

lemma trace_emit [simp]: "trace (emit e w) = trace w @ [e]"
  by (simp add: emit_def)

lemma repo_emit [simp]: "repo (emit e w) = repo w"
  by (simp add: emit_def)

lemma usage_store_emit [simp]: "usage_store (emit e w) = usage_store w"
  by (simp add: emit_def)

lemma trace_log [simp]:
  "trace (log_info m w) = trace w @ [LogInfo m]"
  "trace (log_warning m w) = trace w @ [LogWarning m]"
  "trace (log_error m w) = trace w @ [LogError m]"
  "trace (log_debug m w) = trace w @ [LogDebug m]"
  by (simp_all add: log_info_def log_warning_def log_error_def log_debug_def)

lemma repo_log [simp]:
  "repo (log_info m w) = repo w"
  "repo (log_warning m w) = repo w"
  "repo (log_error m w) = repo w"
  "repo (log_debug m w) = repo w"
  by (simp_all add: log_info_def log_warning_def log_error_def log_debug_def)

lemma usage_store_log [simp]:
  "usage_store (log_info m w) = usage_store w"
  "usage_store (log_warning m w) = usage_store w"
  "usage_store (log_error m w) = usage_store w"
  "usage_store (log_debug m w) = usage_store w"
  by (simp_all add: log_info_def log_warning_def log_error_def log_debug_def)

lemma update_docsource_proj [simp]:
  "trace (update_docsource d w) = trace w @ [CallUpdateDocsource d]"
  "docsources (repo (update_docsource d w)) = (docsources (repo w))(docsource_uuid d \<mapsto> d)"
  "docs_by_source (repo (update_docsource d w)) = docs_by_source (repo w)"
  by (simp_all add: update_docsource_def)

lemma create_docsource_proj [simp]:
  "docsource_uuid (fst (create_docsource u dc w)) = u"
  "source_status (fst (create_docsource u dc w)) = CREATED"
  "trace (snd (create_docsource u dc w)) = trace w @ [CallCreateDocsource (fst (create_docsource u dc w))]"
  "docsources (repo (snd (create_docsource u dc w))) =
     (docsources (repo w))(u \<mapsto> fst (create_docsource u dc w))"
  "docs_by_source (repo (snd (create_docsource u dc w))) = docs_by_source (repo w)"
  by (simp_all add: create_docsource_def Let_def)

lemma create_docsrc_proj [simp]:
  "docsource_uuid (fst (create_docsrc_for_search env ei item kw w)) = env_new_uuid env"
  "source_status (fst (create_docsrc_for_search env ei item kw w)) = CREATED"
  "trace (snd (create_docsrc_for_search env ei item kw w)) =
     trace w @ [LogInfo (''[Status]Searching the web with '' @ env_retriever_type env @ '' ...''),
                CallCreateDocsource (fst (create_docsrc_for_search env ei item kw w))]"
  "docsources (repo (snd (create_docsrc_for_search env ei item kw w))) =
     (docsources (repo w))(env_new_uuid env \<mapsto> fst (create_docsrc_for_search env ei item kw w))"
  by (simp_all add: create_docsrc_for_search_def Let_def)

lemma call_run_scheduler_proj [simp]:
  "fst (call_run_scheduler env w) = fst (env_run_scheduler env (repo w))"
  "trace (snd (call_run_scheduler env w)) =
     trace w @ [CallRunScheduler (fst (env_run_scheduler env (repo w)))]"
  "repo (snd (call_run_scheduler env w)) = snd (env_run_scheduler env (repo w))"
  by (simp_all add: call_run_scheduler_def case_prod_beta)

lemma call_wait_proj [simp]:
  "fst (call_wait_for_docsource env d t w) = fst (env_wait_for_docsource env (repo w) d t)"
  "trace (snd (call_wait_for_docsource env d t w)) =
     trace w @ [CallWaitForDocsource (docsource_uuid d) t
                  (fst (env_wait_for_docsource env (repo w) d t))]"
  "repo (snd (call_wait_for_docsource env d t w)) = snd (env_wait_for_docsource env (repo w) d t)"
  by (simp_all add: call_wait_for_docsource_def case_prod_beta)

lemma new_events_append [simp]: "new_events w (w'\<lparr>trace := trace w @ evs\<rparr>) = evs"
  by (simp add: new_events_def)

lemma new_events_self [simp]: "new_events w w = []"
  by (simp add: new_events_def)

section \<open>The paths of the synchronous pipeline\<close>

lemma pipeline_search_raised:
  assumes "ei_target_chat_query_item ei = Some item"
    and "env_search_and_scrape env (repo w) (query_content item) d = (Inl e, r)"
  shows "run_web_search_pipeline env ei d w =
           (Inl e, emit (CallSearchAndScrape (query_content item) (docsource_uuid d) (Some e))
                     (w\<lparr>repo := r\<rparr>))"
  using assms
  by (simp add: run_web_search_pipeline_def call_search_and_scrape_def raised_def)

lemma pipeline_no_results:
  assumes "ei_target_chat_query_item ei = Some item"
    and "env_search_and_scrape env (repo w) (query_content item) d = (Inr dl, r)"
    and "dl = None \<or> dl = Some []"
  shows "run_web_search_pipeline env ei d w =
           (Inr ([], d\<lparr>source_status := COMPLETED\<rparr>),
            update_docsource (d\<lparr>source_status := COMPLETED\<rparr>)
              (log_warning (''No results found for the query '' @ query_content item @ ''.'')
                 (emit (CallSearchAndScrape (query_content item) (docsource_uuid d) None)
                    (w\<lparr>repo := r\<rparr>))))"
  using assms
  by (auto simp add: run_web_search_pipeline_def call_search_and_scrape_def raised_def Let_def)

lemma pipeline_adhoc_raised:
  assumes "ei_target_chat_query_item ei = Some item"
    and "env_search_and_scrape env (repo w) (query_content item) d = (Inr (Some (x # xs)), r)"
    and "env_run_adhoc_pipeline env r (x # xs) = (Inl e, r2)"
  shows "run_web_search_pipeline env ei d w =
           (Inl e, emit (CallAdhocPipeline (length (x # xs)) (Some e))
                     (emit (CallSearchAndScrape (query_content item) (docsource_uuid d) None)
                        (w\<lparr>repo := r2\<rparr>)))"
  using assms
  by (simp add: run_web_search_pipeline_def call_search_and_scrape_def
        call_run_adhoc_pipeline_def raised_def emit_def)

lemma pipeline_processed:
  assumes "ei_target_chat_query_item ei = Some item"
    and "env_search_and_scrape env (repo w) (query_content item) d = (Inr (Some (x # xs)), r)"
    and "env_run_adhoc_pipeline env r (x # xs) = (Inr docs, r2)"
  shows "run_web_search_pipeline env ei d w =
           (Inr (docs, d\<lparr>source_status := COMPLETED\<rparr>),
            update_docsource (d\<lparr>source_status := COMPLETED\<rparr>)
              (emit (CallAdhocPipeline (length (x # xs)) None)
                 (emit (CallSearchAndScrape (query_content item) (docsource_uuid d) None)
                    (w\<lparr>repo := r2\<rparr>))))"
  using assms
  by (simp add: run_web_search_pipeline_def call_search_and_scrape_def
        call_run_adhoc_pipeline_def raised_def emit_def update_docsource_def Let_def)

text \<open>
  The four ways the pipeline ends. \<open>P\<close> holds of the repositories the collaborators
  leave when it holds of the ones they find and every collaborator keeps it.
\<close>

lemma pipeline_cases:
  assumes item: "ei_target_chat_query_item ei = Some item"
    and keep_search: "\<And>r q d. P r \<Longrightarrow> P (snd (env_search_and_scrape env r q d))"
    and keep_adhoc: "\<And>r l. P r \<Longrightarrow> P (snd (env_run_adhoc_pipeline env r l))"
    and start: "P (repo w)"
  obtains
    (search_raised) e r where
      "P r"
      "run_web_search_pipeline env ei d w =
         (Inl e, emit (CallSearchAndScrape (query_content item) (docsource_uuid d) (Some e))
                   (w\<lparr>repo := r\<rparr>))"
  | (no_results) r where
      "P r"
      "run_web_search_pipeline env ei d w =
         (Inr ([], d\<lparr>source_status := COMPLETED\<rparr>),
          update_docsource (d\<lparr>source_status := COMPLETED\<rparr>)
            (log_warning (''No results found for the query '' @ query_content item @ ''.'')
               (emit (CallSearchAndScrape (query_content item) (docsource_uuid d) None)
                  (w\<lparr>repo := r\<rparr>))))"
  | (adhoc_raised) e r n where
      "P r"
      "run_web_search_pipeline env ei d w =
         (Inl e, emit (CallAdhocPipeline n (Some e))
                   (emit (CallSearchAndScrape (query_content item) (docsource_uuid d) None)
                      (w\<lparr>repo := r\<rparr>)))"
  | (processed) docs r n where
      "P r"
      "run_web_search_pipeline env ei d w =
         (Inr (docs, d\<lparr>source_status := COMPLETED\<rparr>),
          update_docsource (d\<lparr>source_status := COMPLETED\<rparr>)
            (emit (CallAdhocPipeline n None)
               (emit (CallSearchAndScrape (query_content item) (docsource_uuid d) None)
                  (w\<lparr>repo := r\<rparr>))))"
proof -
  obtain res r where s: "env_search_and_scrape env (repo w) (query_content item) d = (res, r)"
    by (cases "env_search_and_scrape env (repo w) (query_content item) d")
  have Pr: "P r"
    using keep_search [OF start, of "query_content item" d] s by simp
  show thesis
  proof (cases res)
    case (Inl e)
    show thesis
      by (rule search_raised [OF Pr], rule pipeline_search_raised [OF item]) (use s Inl in simp)
  next
    case (Inr dl)
    show thesis
    proof (cases dl)
      case None
      show thesis
        by (rule no_results [OF Pr], rule pipeline_no_results [OF item, of _ _ _ dl])
           (use s Inr None in simp_all)
    next
      case (Some l)
      show thesis
      proof (cases l)
        case Nil
        show thesis
          by (rule no_results [OF Pr], rule pipeline_no_results [OF item, of _ _ _ dl])
             (use s Inr Some Nil in simp_all)
      next
        case (Cons x xs)
        obtain res2 r2 where a: "env_run_adhoc_pipeline env r (x # xs) = (res2, r2)"
          by (cases "env_run_adhoc_pipeline env r (x # xs)")
        have Pr2: "P r2"
          using keep_adhoc [OF Pr, of "x # xs"] a by simp
        show thesis
        proof (cases res2)
          case (Inl e)
          show thesis
            by (rule adhoc_raised [OF Pr2], rule pipeline_adhoc_raised [OF item, of _ _ _ x xs r])
               (use s \<open>res = Inr dl\<close> Some Cons a Inl in simp_all)
        next
          case Inr2: (Inr docs)
          show thesis
            by (rule processed [OF Pr2], rule pipeline_processed [OF item, of _ _ _ x xs r])
               (use s Inr Some Cons a Inr2 in simp_all)
        qed
      qed
    qed
  qed
qed

section \<open>The paths of the search step\<close>

lemma create_docsrc_repo:
  "repo (snd (create_docsrc_for_search env ei item kw w)) =
     (repo w)\<lparr>docsources :=
       (docsources (repo w))(env_new_uuid env \<mapsto> fst (create_docsrc_for_search env ei item kw w))\<rparr>"
  by (simp add: create_docsrc_for_search_def create_docsource_def Let_def emit_def log_info_def)

lemma run_step_no_item:
  assumes "ei_target_chat_query_item ei = None"
  shows "run_step env ei skw w =
           (Inl (UnexpectedCaseException ''The chat query item is not provided.''), w)"
  using assms by (simp add: run_step_def)

lemma run_step_manual:
  assumes "\<not> auto_schedule (ei_kb ei)" and "ei_target_chat_query_item ei = Some item"
  shows "run_step env ei skw w =
     (let c = create_docsrc_for_search env ei item
                (case skw of None \<Rightarrow> query_content item | Some k \<Rightarrow> k)
                (log_info (''Searching the web for query: ''
                           @ (case skw of None \<Rightarrow> query_content item | Some k \<Rightarrow> k)) w);
          p = run_web_search_pipeline env ei (fst c)
                (log_info ''[Status]Start the document process pipeline ...'' (snd c))
      in case fst p of
           Inr sd \<Rightarrow>
             (Inr (snd sd),
              log_info (''Successfully processed '' @ str_nat (length (fst sd)) @ '' documents.'')
                (snd p))
         | Inl e \<Rightarrow>
             (Inl e,
              update_docsource ((fst c)\<lparr>source_status := FAILED\<rparr>)
                (log_error (''Failed to run the web search pipeline: '' @ str_exn e) (snd p))))"
  using assms
  by (simp add: run_step_def Let_def case_prod_beta split: sum.splits)

lemma run_step_manual_cases:
  assumes na: "\<not> auto_schedule (ei_kb ei)" and item: "ei_target_chat_query_item ei = Some item"
    and keep_search: "\<And>r q d. P r \<Longrightarrow> P (snd (env_search_and_scrape env r q d))"
    and keep_adhoc: "\<And>r l. P r \<Longrightarrow> P (snd (env_run_adhoc_pipeline env r l))"
    and start: "\<And>d. P ((repo w)\<lparr>docsources := (docsources (repo w))(env_new_uuid env \<mapsto> d)\<rparr>)"
  obtains
    (search_raised) d w2 e r where
      "docsource_uuid d = env_new_uuid env" "source_status d = CREATED" "P r"
      "\<exists>m1 m2 m3. trace w2 = trace w @ [LogInfo m1, LogInfo m2, CallCreateDocsource d, LogInfo m3]"
      "run_step env ei skw w =
         (Inl e,
          update_docsource (d\<lparr>source_status := FAILED\<rparr>)
            (log_error (''Failed to run the web search pipeline: '' @ str_exn e)
               (emit (CallSearchAndScrape (query_content item) (docsource_uuid d) (Some e))
                  (w2\<lparr>repo := r\<rparr>))))"
  | (no_results) d w2 r where
      "docsource_uuid d = env_new_uuid env" "source_status d = CREATED" "P r"
      "\<exists>m1 m2 m3. trace w2 = trace w @ [LogInfo m1, LogInfo m2, CallCreateDocsource d, LogInfo m3]"
      "run_step env ei skw w =
         (Inr (d\<lparr>source_status := COMPLETED\<rparr>),
          log_info (''Successfully processed '' @ str_nat 0 @ '' documents.'')
            (update_docsource (d\<lparr>source_status := COMPLETED\<rparr>)
               (log_warning (''No results found for the query '' @ query_content item @ ''.'')
                  (emit (CallSearchAndScrape (query_content item) (docsource_uuid d) None)
                     (w2\<lparr>repo := r\<rparr>)))))"
  | (adhoc_raised) d w2 e r n where
      "docsource_uuid d = env_new_uuid env" "source_status d = CREATED" "P r"
      "\<exists>m1 m2 m3. trace w2 = trace w @ [LogInfo m1, LogInfo m2, CallCreateDocsource d, LogInfo m3]"
      "run_step env ei skw w =
         (Inl e,
          update_docsource (d\<lparr>source_status := FAILED\<rparr>)
            (log_error (''Failed to run the web search pipeline: '' @ str_exn e)
               (emit (CallAdhocPipeline n (Some e))
                  (emit (CallSearchAndScrape (query_content item) (docsource_uuid d) None)
                     (w2\<lparr>repo := r\<rparr>)))))"
  | (processed) d w2 docs r n where
      "docsource_uuid d = env_new_uuid env" "source_status d = CREATED" "P r"
      "\<exists>m1 m2 m3. trace w2 = trace w @ [LogInfo m1, LogInfo m2, CallCreateDocsource d, LogInfo m3]"
      "run_step env ei skw w =
         (Inr (d\<lparr>source_status := COMPLETED\<rparr>),
          log_info (''Successfully processed '' @ str_nat (length (docs :: Document list))
                    @ '' documents.'')
            (update_docsource (d\<lparr>source_status := COMPLETED\<rparr>)
               (emit (CallAdhocPipeline n None)
                  (emit (CallSearchAndScrape (query_content item) (docsource_uuid d) None)
                     (w2\<lparr>repo := r\<rparr>)))))"
proof -
  define kw where "kw = (case skw of None \<Rightarrow> query_content item | Some k \<Rightarrow> k)"
  define c where
    "c = create_docsrc_for_search env ei item kw (log_info (''Searching the web for query: '' @ kw) w)"
  define w2 where "w2 = log_info ''[Status]Start the document process pipeline ...'' (snd c)"
  have rs: "run_step env ei skw w =
      (case fst (run_web_search_pipeline env ei (fst c) w2) of
         Inr sd \<Rightarrow>
           (Inr (snd sd),
            log_info (''Successfully processed '' @ str_nat (length (fst sd)) @ '' documents.'')
              (snd (run_web_search_pipeline env ei (fst c) w2)))
       | Inl e \<Rightarrow>
           (Inl e,
            update_docsource ((fst c)\<lparr>source_status := FAILED\<rparr>)
              (log_error (''Failed to run the web search pipeline: '' @ str_exn e)
                 (snd (run_web_search_pipeline env ei (fst c) w2)))))"
    unfolding run_step_manual [OF na item] kw_def c_def w2_def Let_def ..
  have u: "docsource_uuid (fst c) = env_new_uuid env" and st: "source_status (fst c) = CREATED"
    by (simp_all add: c_def)
  have tr: "\<exists>m1 m2 m3. trace w2 = trace w @ [LogInfo m1, LogInfo m2, CallCreateDocsource (fst c), LogInfo m3]"
    by (simp add: w2_def c_def)
  have P2: "P (repo w2)"
    using start [of "fst c"] by (simp add: w2_def c_def create_docsrc_repo)
  show thesis
  proof (rule pipeline_cases [of ei item P env w2 "fst c", OF item keep_search keep_adhoc P2])
    fix e r
    assume "P r" and "run_web_search_pipeline env ei (fst c) w2 =
         (Inl e, emit (CallSearchAndScrape (query_content item) (docsource_uuid (fst c)) (Some e))
                   (w2\<lparr>repo := r\<rparr>))"
    then show thesis
      by (intro search_raised [of "fst c" r w2 e, OF u st _ tr]) (simp_all add: rs)
  next
    fix r
    assume "P r" and "run_web_search_pipeline env ei (fst c) w2 =
         (Inr ([], (fst c)\<lparr>source_status := COMPLETED\<rparr>),
          update_docsource ((fst c)\<lparr>source_status := COMPLETED\<rparr>)
            (log_warning (''No results found for the query '' @ query_content item @ ''.'')
               (emit (CallSearchAndScrape (query_content item) (docsource_uuid (fst c)) None)
                  (w2\<lparr>repo := r\<rparr>))))"
    then show thesis
      by (intro no_results [of "fst c" r w2, OF u st _ tr]) (simp_all add: rs)
  next
    fix e r n
    assume "P r" and "run_web_search_pipeline env ei (fst c) w2 =
         (Inl e, emit (CallAdhocPipeline n (Some e))
                   (emit (CallSearchAndScrape (query_content item) (docsource_uuid (fst c)) None)
                      (w2\<lparr>repo := r\<rparr>)))"
    then show thesis
      by (intro adhoc_raised [of "fst c" r w2 e n, OF u st _ tr]) (simp_all add: rs)
  next
    fix docs r n
    assume "P r" and "run_web_search_pipeline env ei (fst c) w2 =
         (Inr (docs, (fst c)\<lparr>source_status := COMPLETED\<rparr>),
          update_docsource ((fst c)\<lparr>source_status := COMPLETED\<rparr>)
            (emit (CallAdhocPipeline n None)
               (emit (CallSearchAndScrape (query_content item) (docsource_uuid (fst c)) None)
                  (w2\<lparr>repo := r\<rparr>))))"
    then show thesis
      by (intro processed [of "fst c" r w2 docs n, OF u st _ tr]) (simp_all add: rs)
  qed
qed

lemma run_step_auto_cases:
  assumes auto: "auto_schedule (ei_kb ei)" and item: "ei_target_chat_query_item ei = Some item"
    and keep_sched: "\<And>r. P r \<Longrightarrow> P (snd (env_run_scheduler env r))"
    and keep_wait: "\<And>r d t. P r \<Longrightarrow> P (snd (env_wait_for_docsource env r d t))"
    and start: "\<And>d. P ((repo w)\<lparr>docsources := (docsources (repo w))(env_new_uuid env \<mapsto> d)\<rparr>)"
  obtains
    (started) d w3 where
      "docsource_uuid d = env_new_uuid env" "source_status d = CREATED" "P (repo w3)"
      "\<not> ei_scheduler_is_running ei"
      "\<exists>m1 m2 m3. trace w3 = trace w @ [LogInfo m1, LogInfo m2, CallCreateDocsource d, LogInfo m3,
                                        CallRunScheduler True]"
      "run_step env ei skw w = (Inr d, w3)"
  | (unfinished) d w3 r where
      "docsource_uuid d = env_new_uuid env" "source_status d = CREATED" "P r"
      "\<exists>m1 m2 m3. trace w3 = trace w @ [LogInfo m1, LogInfo m2, CallCreateDocsource d, LogInfo m3]
                     @ (if ei_scheduler_is_running ei then [] else [CallRunScheduler False])"
      "run_step env ei skw w =
         (Inr d,
          log_warning ''The document source has not finished processing yet.''
            (emit (CallWaitForDocsource (docsource_uuid d) 300 False) (w3\<lparr>repo := r\<rparr>)))"
  | (finished) d w3 r where
      "docsource_uuid d = env_new_uuid env" "source_status d = CREATED" "P r"
      "\<exists>m1 m2 m3. trace w3 = trace w @ [LogInfo m1, LogInfo m2, CallCreateDocsource d, LogInfo m3]
                     @ (if ei_scheduler_is_running ei then [] else [CallRunScheduler False])"
      "run_step env ei skw w =
         (Inr (d\<lparr>source_status := COMPLETED\<rparr>),
          update_docsource (d\<lparr>source_status := COMPLETED\<rparr>)
            (log_info ''The document source has finished processing.''
               (emit (CallWaitForDocsource (docsource_uuid d) 300 True) (w3\<lparr>repo := r\<rparr>))))"
proof -
  define kw where "kw = (case skw of None \<Rightarrow> query_content item | Some k \<Rightarrow> k)"
  define c where
    "c = create_docsrc_for_search env ei item kw (log_info (''Searching the web for query: '' @ kw) w)"
  define sw where
    "sw = (if ei_scheduler_is_running ei
           then (False, log_info ''Scheduled the new DocSource to be processed ...'' (snd c))
           else call_run_scheduler env
                  (log_info ''Start the scheduler to process the new DocSource ...'' (snd c)))"
  define wt where "wt = call_wait_for_docsource env (fst c) 300 (snd sw)"
  have rs: "run_step env ei skw w =
      (if fst sw = False
       then (if fst wt = False
             then (Inr (fst c),
                   log_warning ''The document source has not finished processing yet.'' (snd wt))
             else (Inr ((fst c)\<lparr>source_status := COMPLETED\<rparr>),
                   update_docsource ((fst c)\<lparr>source_status := COMPLETED\<rparr>)
                     (log_info ''The document source has finished processing.'' (snd wt))))
       else (Inr (fst c), snd sw))"
    using auto item
    by (simp add: run_step_def Let_def case_prod_beta kw_def c_def sw_def wt_def)
  have u: "docsource_uuid (fst c) = env_new_uuid env" and st: "source_status (fst c) = CREATED"
    by (simp_all add: c_def)
  have Pc: "P (repo (snd c))"
    using start [of "fst c"] by (simp add: c_def create_docsrc_repo)
  have Psw: "P (repo (snd sw))"
    using Pc keep_sched [of "repo (snd c)"] by (simp add: sw_def)
  have tsw: "\<exists>m1 m2 m3. trace (snd sw) =
      trace w @ [LogInfo m1, LogInfo m2, CallCreateDocsource (fst c), LogInfo m3]
        @ (if ei_scheduler_is_running ei then [] else [CallRunScheduler (fst sw)])"
    by (simp add: sw_def c_def)
  have run: "ei_scheduler_is_running ei \<Longrightarrow> fst sw = False"
    by (simp add: sw_def)
  have wt_eq: "snd wt = emit (CallWaitForDocsource (docsource_uuid (fst c)) 300 (fst wt))
                          ((snd sw)\<lparr>repo := repo (snd wt)\<rparr>)"
    by (simp add: wt_def call_wait_for_docsource_def case_prod_beta)
  have Pwt: "P (repo (snd wt))"
    using Psw keep_wait [of "repo (snd sw)" "fst c" 300] by (simp add: wt_def)
  show thesis
  proof (cases "fst sw")
    case True
    with run have nr: "\<not> ei_scheduler_is_running ei" by auto
    from tsw True nr
    have "\<exists>m1 m2 m3. trace (snd sw) =
        trace w @ [LogInfo m1, LogInfo m2, CallCreateDocsource (fst c), LogInfo m3, CallRunScheduler True]"
      by simp
    then show thesis
      using True by (intro started [OF u st Psw nr]) (simp_all add: rs)
  next
    case False
    with tsw have tsw': "\<exists>m1 m2 m3. trace (snd sw) =
        trace w @ [LogInfo m1, LogInfo m2, CallCreateDocsource (fst c), LogInfo m3]
          @ (if ei_scheduler_is_running ei then [] else [CallRunScheduler False])"
      by (cases "ei_scheduler_is_running ei") auto
    show thesis
    proof (cases "fst wt")
      case True
      show thesis
        by (rule finished [OF u st Pwt tsw']) (use False True wt_eq in \<open>simp add: rs\<close>)
    next
      case wf: False
      show thesis
        by (rule unfinished [OF u st Pwt tsw']) (use False wf wt_eq in \<open>simp add: rs\<close>)
    qed
  qed
qed

section \<open>Properties of the search step\<close>

lemmas run_step_auto_paths [consumes 2, case_names started unfinished finished] =
  run_step_auto_cases [where P = "\<lambda>r. True", OF _ _ TrueI TrueI TrueI]

lemmas run_step_manual_paths
  [consumes 2, case_names search_raised no_results adhoc_raised processed] =
  run_step_manual_cases [where P = "\<lambda>r. True", OF _ _ TrueI TrueI TrueI]

lemma demo_run_unfinished:
  "run_step (demo_search_env False found piped) (demo_exec_info True True) None w0 =
     (Inr (fst (create_docsrc_for_search (demo_search_env False found piped)
                  (demo_exec_info True True) demo_item ''llm agents''
                  (log_info ''Searching the web for query: llm agents'' w0))),
      log_warning ''The document source has not finished processing yet.''
        (emit (CallWaitForDocsource ''ds-1'' 300 False)
           (log_info ''Scheduled the new DocSource to be processed ...''
              (snd (create_docsrc_for_search (demo_search_env False found piped)
                      (demo_exec_info True True) demo_item ''llm agents''
                      (log_info ''Searching the web for query: llm agents'' w0))))))"
  by (simp add: run_step_def demo_exec_info_def demo_kb_def demo_item_def Let_def case_prod_beta
        call_wait_for_docsource_def demo_search_env_def create_docsrc_repo)

text \<open>
  C1. Whenever \<open>run_step\<close> waits for the created DocSource, the timeout it passes to the
  store's wait is 300 seconds (five minutes), on every path and for every behaviour of
  the collaborators; the docstrings of the step say ten minutes.
\<close>

theorem run_step_wait_timeout:
  assumes run: "run_step env ei skw w = (res, w')"
    and wait: "(u, t, f) \<in> set (wait_calls (new_events w w'))"
  shows "t = 300 \<and> t \<noteq> 10 * 60"
proof (cases "ei_target_chat_query_item ei")
  case None
  from run wait show ?thesis
    by (simp add: run_step_no_item [OF None] wait_calls_def)
next
  case (Some item)
  show ?thesis
  proof (cases "auto_schedule (ei_kb ei)")
    case True
    from True Some show ?thesis
    proof (cases rule: run_step_auto_paths [where env = env and w = w and skw = skw])
      case (started d w3)
      with run wait show ?thesis by (auto simp: new_events_def wait_calls_def split: if_splits)
    next
      case (unfinished d w3 r)
      with run wait show ?thesis by (auto simp: new_events_def wait_calls_def split: if_splits)
    next
      case (finished d w3 r)
      with run wait show ?thesis by (auto simp: new_events_def wait_calls_def split: if_splits)
    qed
  next
    case False
    from False Some show ?thesis
    proof (cases rule: run_step_manual_paths [where env = env and w = w and skw = skw])
      case (search_raised d w2 e r)
      with run wait show ?thesis by (auto simp: new_events_def wait_calls_def split: if_splits)
    next
      case (no_results d w2 r)
      with run wait show ?thesis by (auto simp: new_events_def wait_calls_def split: if_splits)
    next
      case (adhoc_raised d w2 e r n)
      with run wait show ?thesis by (auto simp: new_events_def wait_calls_def split: if_splits)
    next
      case (processed d w2 docs r n)
      with run wait show ?thesis by (auto simp: new_events_def wait_calls_def split: if_splits)
    qed
  qed
qed

theorem run_step_wait_timeout_witness:
  "wait_calls (new_events w0
      (snd (run_step (demo_search_env False (Inr None) (Inr [])) (demo_exec_info True True) None w0)))
     = [(''ds-1'', 300, False)]
   \<and> (300 :: nat) \<noteq> 10 * 60"
proof -
  let ?R = "run_step (demo_search_env False (Inr None) (Inr [])) (demo_exec_info True True) None w0"
  have ev: "wait_calls (new_events w0 (snd ?R)) = [(''ds-1'', 300, False)]"
    by (simp add: demo_run_unfinished new_events_def wait_calls_def)
  have run: "?R = (fst ?R, snd ?R)" by simp
  have mem: "(''ds-1'', 300, False) \<in> set (wait_calls (new_events w0 (snd ?R)))"
    by (simp add: ev)
  from run_step_wait_timeout [OF run mem] ev show ?thesis by simp
qed

text \<open>
  C3. If the wait for the created DocSource returns false, \<open>run_step\<close> raises nothing: it
  returns the docsource it created, still in status \<open>CREATED\<close>, its last act is the
  warning that the source has not finished processing, and it writes no status.
\<close>

theorem run_step_wait_unfinished:
  assumes run: "run_step env ei skw w = (res, w')"
    and wait: "(u, t, False) \<in> set (wait_calls (new_events w w'))"
  shows "\<exists>d. res = Inr d \<and> docsource_uuid d = u \<and> source_status d = CREATED
           \<and> CallCreateDocsource d \<in> set (new_events w w')
           \<and> warnings (new_events w w') = [''The document source has not finished processing yet.'']
           \<and> last (trace w') = LogWarning ''The document source has not finished processing yet.''
           \<and> status_writes (new_events w w') = []"
proof (cases "ei_target_chat_query_item ei")
  case None
  from run wait show ?thesis
    by (simp add: run_step_no_item [OF None] wait_calls_def)
next
  case (Some item)
  show ?thesis
  proof (cases "auto_schedule (ei_kb ei)")
    case True
    from True Some show ?thesis
    proof (cases rule: run_step_auto_paths [where env = env and w = w and skw = skw])
      case (started d w3)
      with run wait show ?thesis by (auto simp: new_events_def wait_calls_def split: if_splits)
    next
      case (unfinished d w3 r)
      with run wait show ?thesis
        by (auto simp: new_events_def wait_calls_def warnings_def status_writes_def split: if_splits)
    next
      case (finished d w3 r)
      with run wait show ?thesis by (auto simp: new_events_def wait_calls_def split: if_splits)
    qed
  next
    case False
    from False Some show ?thesis
    proof (cases rule: run_step_manual_paths [where env = env and w = w and skw = skw])
      case (search_raised d w2 e r)
      with run wait show ?thesis by (auto simp: new_events_def wait_calls_def split: if_splits)
    next
      case (no_results d w2 r)
      with run wait show ?thesis by (auto simp: new_events_def wait_calls_def split: if_splits)
    next
      case (adhoc_raised d w2 e r n)
      with run wait show ?thesis by (auto simp: new_events_def wait_calls_def split: if_splits)
    next
      case (processed d w2 docs r n)
      with run wait show ?thesis by (auto simp: new_events_def wait_calls_def split: if_splits)
    qed
  qed
qed

theorem run_step_wait_unfinished_witness:
  "\<exists>d. fst (run_step (demo_search_env False (Inr None) (Inr [])) (demo_exec_info True False) None w0)
          = Inr d
       \<and> docsource_uuid d = ''ds-1'' \<and> source_status d = CREATED
       \<and> warnings (new_events w0
            (snd (run_step (demo_search_env False (Inr None) (Inr [])) (demo_exec_info True False)
                    None w0)))
          = [''The document source has not finished processing yet.'']"
proof -
  let ?R = "run_step (demo_search_env False (Inr None) (Inr [])) (demo_exec_info True False) None w0"
  have run: "?R = (fst ?R, snd ?R)" by simp
  have mem: "(''ds-1'', 300, False) \<in> set (wait_calls (new_events w0 (snd ?R)))"
    by (simp add: run_step_def demo_exec_info_def demo_kb_def demo_item_def Let_def case_prod_beta
          demo_search_env_def new_events_def wait_calls_def)
  from run_step_wait_unfinished [OF run mem] show ?thesis by blast
qed

text \<open>
  C5. With \<open>auto_schedule\<close> set and a scheduler already running, \<open>run_step\<close> never calls
  \<open>run_scheduler\<close>; it makes exactly one call to the store's wait, for the docsource it
  created.
\<close>

theorem run_step_scheduler_running:
  assumes run: "run_step env ei skw w = (res, w')"
    and auto: "auto_schedule (ei_kb ei)"
    and running: "ei_scheduler_is_running ei"
    and item: "ei_target_chat_query_item ei = Some item"
  shows "scheduler_starts (new_events w w') = []
       \<and> (\<exists>finished. wait_calls (new_events w w') = [(env_new_uuid env, 300, finished)])"
  using auto item
proof (cases rule: run_step_auto_paths [where env = env and w = w and skw = skw])
  case (started d w3)
  with running show ?thesis by simp
next
  case (unfinished d w3 r)
  with run running show ?thesis
    by (auto simp: new_events_def wait_calls_def scheduler_starts_def)
next
  case (finished d w3 r)
  with run running show ?thesis
    by (auto simp: new_events_def wait_calls_def scheduler_starts_def)
qed

theorem run_step_scheduler_running_witness:
  "scheduler_starts (new_events w0
      (snd (run_step (demo_search_env True (Inr None) (Inr [])) (demo_exec_info True True) None w0)))
     = []
   \<and> (\<exists>finished. wait_calls (new_events w0
      (snd (run_step (demo_search_env True (Inr None) (Inr [])) (demo_exec_info True True) None w0)))
     = [(''ds-1'', 300, finished)])"
proof -
  let ?R = "run_step (demo_search_env True (Inr None) (Inr [])) (demo_exec_info True True) None w0"
  have run: "?R = (fst ?R, snd ?R)" by simp
  have a: "auto_schedule (ei_kb (demo_exec_info True True))"
    by (simp add: demo_exec_info_def demo_kb_def)
  have b: "ei_scheduler_is_running (demo_exec_info True True)"
    by (simp add: demo_exec_info_def)
  have c: "ei_target_chat_query_item (demo_exec_info True True) = Some demo_item"
    by (simp add: demo_exec_info_def)
  from run_step_scheduler_running [OF run a b c] show ?thesis
    by (simp add: demo_search_env_def)
qed

text \<open>
  C4. With \<open>auto_schedule\<close> off, when the search or the ad-hoc pipeline raises \<open>e\<close>,
  \<open>run_step\<close> raises the same \<open>e\<close>; its only status write sets the created docsource to
  \<open>FAILED\<close>, that update is its last act, and the store holds the docsource in status
  \<open>FAILED\<close> when it returns.
\<close>

theorem run_step_pipeline_failure:
  assumes run: "run_step env ei skw w = (res, w')"
    and manual: "\<not> auto_schedule (ei_kb ei)"
    and stage: "CallSearchAndScrape q u (Some e) \<in> set (new_events w w')
                \<or> CallAdhocPipeline n (Some e) \<in> set (new_events w w')"
  shows "res = Inl e
       \<and> status_writes (new_events w w') = [(env_new_uuid env, FAILED)]
       \<and> (\<exists>d. get_docsource w' (env_new_uuid env) = Some d \<and> source_status d = FAILED
                \<and> docsource_uuid d = env_new_uuid env
                \<and> last (trace w') = CallUpdateDocsource d)"
proof (cases "ei_target_chat_query_item ei")
  case None
  from run stage show ?thesis
    by (simp add: run_step_no_item [OF None])
next
  case (Some item)
  from manual Some show ?thesis
  proof (cases rule: run_step_manual_paths [where env = env and w = w and skw = skw])
    case (search_raised d w2 e' r)
    with run stage show ?thesis
      by (auto simp: new_events_def status_writes_def get_docsource_def)
  next
    case (no_results d w2 r)
    with run stage show ?thesis by (auto simp: new_events_def)
  next
    case (adhoc_raised d w2 e' r n')
    with run stage show ?thesis
      by (auto simp: new_events_def status_writes_def get_docsource_def)
  next
    case (processed d w2 docs r n')
    with run stage show ?thesis by (auto simp: new_events_def)
  qed
qed

theorem run_step_pipeline_failure_witness:
  "fst (run_step (demo_search_env False (Inl (CollaboratorError ''search failed'')) (Inr []))
          (demo_exec_info False False) None w0)
     = Inl (CollaboratorError ''search failed'')
   \<and> status_writes (new_events w0
        (snd (run_step (demo_search_env False (Inl (CollaboratorError ''search failed'')) (Inr []))
                (demo_exec_info False False) None w0)))
     = [(''ds-1'', FAILED)]"
proof -
  let ?E = "demo_search_env False (Inl (CollaboratorError ''search failed'')) (Inr [])"
  let ?R = "run_step ?E (demo_exec_info False False) None w0"
  have run: "?R = (fst ?R, snd ?R)" by simp
  have a: "\<not> auto_schedule (ei_kb (demo_exec_info False False))"
    by (simp add: demo_exec_info_def demo_kb_def)
  have c: "ei_target_chat_query_item (demo_exec_info False False) = Some demo_item"
    by (simp add: demo_exec_info_def)
  have s: "env_search_and_scrape ?E r q d = (Inl (CollaboratorError ''search failed''), r)" for r q d
    by (simp add: demo_search_env_def)
  have mem: "CallSearchAndScrape ''llm agents'' ''ds-1'' (Some (CollaboratorError ''search failed''))
               \<in> set (new_events w0 (snd ?R))"
    by (simp add: run_step_manual [OF a c] Let_def pipeline_search_raised [OF c s] new_events_def)
       (simp add: demo_item_def demo_search_env_def)
  from run_step_pipeline_failure [OF run a disjI1 [OF mem]] show ?thesis
    by (simp add: demo_search_env_def)
qed

text \<open>
  C6. When the search returns \<open>None\<close> or an empty list, \<open>_run_web_search_pipeline\<close>
  returns an empty document list and the docsource in status \<open>COMPLETED\<close>; its only
  status write sets \<open>COMPLETED\<close>, that update is its last act, and the store holds the
  docsource in status \<open>COMPLETED\<close> when it returns.
\<close>

theorem run_web_search_pipeline_no_results:
  assumes item: "ei_target_chat_query_item ei = Some item"
    and search: "fst (env_search_and_scrape env (repo w) (query_content item) d) = Inr dl"
    and empty: "dl = None \<or> dl = Some []"
    and run: "run_web_search_pipeline env ei d w = (res, w')"
  shows "res = Inr ([], d\<lparr>source_status := COMPLETED\<rparr>)
       \<and> get_docsource w' (docsource_uuid d) = Some (d\<lparr>source_status := COMPLETED\<rparr>)
       \<and> status_writes (new_events w w') = [(docsource_uuid d, COMPLETED)]
       \<and> last (trace w') = CallUpdateDocsource (d\<lparr>source_status := COMPLETED\<rparr>)"
proof -
  obtain r where s: "env_search_and_scrape env (repo w) (query_content item) d = (Inr dl, r)"
    using search by (cases "env_search_and_scrape env (repo w) (query_content item) d") simp
  from run show ?thesis
    unfolding pipeline_no_results [OF item s empty]
    by (auto simp: new_events_def status_writes_def get_docsource_def)
qed

theorem run_web_search_pipeline_no_results_witness:
  "fst (run_web_search_pipeline (demo_search_env False (Inr (Some [])) (Inr []))
          (demo_exec_info False False)
          \<lparr>docsource_uuid = ''ds-1'', ds_kb_id = ''kb-1'', ds_source_type = SEARCH,
           ds_uri = ''search://google'', ds_display_name = ''llm agents'',
           source_status = CREATED, ds_ingest_config = None\<rparr> w0)
     = Inr ([], \<lparr>docsource_uuid = ''ds-1'', ds_kb_id = ''kb-1'', ds_source_type = SEARCH,
                 ds_uri = ''search://google'', ds_display_name = ''llm agents'',
                 source_status = COMPLETED, ds_ingest_config = None\<rparr>)"
proof -
  let ?E = "demo_search_env False (Inr (Some [])) (Inr [])"
  let ?d = "\<lparr>docsource_uuid = ''ds-1'', ds_kb_id = ''kb-1'', ds_source_type = SEARCH,
           ds_uri = ''search://google'', ds_display_name = ''llm agents'',
           source_status = CREATED, ds_ingest_config = None\<rparr>"
  let ?R = "run_web_search_pipeline ?E (demo_exec_info False False) ?d w0"
  have run: "?R = (fst ?R, snd ?R)" by simp
  have c: "ei_target_chat_query_item (demo_exec_info False False) = Some demo_item"
    by (simp add: demo_exec_info_def)
  have s: "fst (env_search_and_scrape ?E (repo w0) (query_content demo_item) ?d) = Inr (Some [])"
    by (simp add: demo_search_env_def)
  have e: "Some [] = None \<or> Some [] = Some ([] :: DocSinkCreate list)" by simp
  from run_web_search_pipeline_no_results [OF c s e run] show ?thesis by simp
qed




section \<open>Properties of the topic planning step\<close>

lemma check_prompt_variables_ok:
  "(check_prompt_variables vars tv = Inr ()) = (\<forall>v \<in> set vars. map_of tv v \<noteq> None)"
  by (induction vars) auto

lemma check_prompt_variables_missing:
  assumes "filter (\<lambda>v. map_of tv v = None) vars = m # ms"
  shows "check_prompt_variables vars tv = Inl (MissingParametersException m)"
  using assms by (induction vars) (auto split: if_splits)

lemma first_missing:
  assumes "var \<in> set vars" and "map_of tv var = None"
  obtains m ms where "filter (\<lambda>v. map_of tv v = None) vars = m # ms"
    and "m \<in> set vars" and "map_of tv m = None"
proof -
  from assms have "var \<in> set (filter (\<lambda>v. map_of tv v = None) vars)" by simp
  then obtain m ms where f: "filter (\<lambda>v. map_of tv v = None) vars = m # ms"
    by (cases "filter (\<lambda>v. map_of tv v = None) vars") auto
  then have "m \<in> set (filter (\<lambda>v. map_of tv v = None) vars)" by simp
  then have "m \<in> set vars" and "map_of tv m = None" by simp_all
  with f show thesis by (rule that)
qed

lemma check_prompt_variables_keys: "check_prompt_variables (map fst tv) tv = Inr ()"
  unfolding check_prompt_variables_ok
  by (auto simp: map_of_eq_None_iff)

lemma plan_topic_check_and_call_trace:
  assumes "check_prompt_variables (map fst (prompt_variables pb)) tv = Inr ()"
  shows "trace (snd (plan_topic_check_and_call env pb tv sp pm w))
           = trace w @ [CallInference sp (pe_render_template env (prompt_template pb) tv) pm]"
  using assms
  by (simp add: plan_topic_check_and_call_def Let_def split: sum.splits)

lemma plan_topic_check_and_call_inference:
  assumes "check_prompt_variables (map fst (prompt_variables pb)) tv = Inr ()"
  shows "inference_calls (new_events w (snd (plan_topic_check_and_call env pb tv sp pm w)))
           = [(sp, pe_render_template env (prompt_template pb) tv, pm)]"
  by (simp add: plan_topic_check_and_call_trace [OF assms] new_events_def inference_calls_def)

lemma registered_prompt_base:
  "map_of used_prompt_templates COMPONENT_NAME = Some (snd (hd used_prompt_templates))"
  by (simp add: used_prompt_templates_def)

lemma registered_prompt_variables:
  "map fst (prompt_variables (snd (hd used_prompt_templates))) =
     [''context_presentation'', ''num_of_section_instruction'', ''article_style'', ''query'',
      ''content_instruction'', ''output_lang_instruction'', ''search_lang_instruction'',
      ''json_format_instruction'', ''content'']"
  by (simp add: used_prompt_templates_def)

lemma step_plan_topic_reaches_inference:
  "length (inference_calls
     (new_events w (snd (step_plan_topic_for_style env query content n w)))) = 1"
proof -
  define nsi where "nsi =
    (if n = None \<or> n = Some 0 then ''generate a list of most relevant topics''
     else if n = Some 1 then ''generate a topic''
     else ''generate '' @ str_int (the n) @ '' most relevant topics'')"
  define tv where "tv =
    [(''context_presentation'', pe_context_presentation env),
     (''num_of_section_instruction'', nsi),
     (''article_style'', pe_article_style env),
     (''query'', query),
     (''content_instruction'', pe_content_instruction env),
     (''output_lang_instruction'', pe_output_lang_instruction env),
     (''search_lang_instruction'', pe_search_lang_instruction env),
     (''json_format_instruction'', pe_json_format_instruction env),
     (''content'', pe_limit_content env content (pe_planning_model env))]"
  define w2 where "w2 =
    log_info (''Using '' @ pe_planning_model env @ '' to generate the topic for research.'')
      (log_info ''[Status]Planning topics for research article.'' w)"
  have step: "step_plan_topic_for_style env query content n w =
      plan_topic_check_and_call env (snd (hd used_prompt_templates)) tv
        (''You are an expert of writing '' @ pe_article_style env @ '' for the specified query.'')
        (pe_planning_model env) w2"
    unfolding step_plan_topic_for_style_def Let_def registered_prompt_base tv_def nsi_def w2_def
    by simp
  have keys: "map fst (prompt_variables (snd (hd used_prompt_templates))) = map fst tv"
    unfolding registered_prompt_variables by (simp add: tv_def)
  have chk: "check_prompt_variables (map fst (prompt_variables (snd (hd used_prompt_templates)))) tv
               = Inr ()"
    unfolding keys by (rule check_prompt_variables_keys)
  have tr: "trace w2 = trace w @ [LogInfo ''[Status]Planning topics for research article.'',
      LogInfo (''Using '' @ pe_planning_model env @ '' to generate the topic for research.'')]"
    by (simp add: w2_def)
  have "trace (snd (step_plan_topic_for_style env query content n w)) =
      trace w2 @ [CallInference
        (''You are an expert of writing '' @ pe_article_style env @ '' for the specified query.'')
        (pe_render_template env (prompt_template (snd (hd used_prompt_templates))) tv)
        (pe_planning_model env)]"
    unfolding step by (rule plan_topic_check_and_call_trace [OF chk])
  then show ?thesis
    by (simp add: new_events_def tr inference_calls_def)
qed

text \<open>
  C7. For the prompt and the template variables handed to the check of lines 218 to 233:
  when a declared prompt variable has no value, the step raises
  \<open>MissingParametersException\<close> naming a declared variable without a value (the first
  one in the order of declaration), and makes no inference call: the world is unchanged.
  When every declared variable has a value the check raises nothing and the inference call
  is made. The template variables that \<open>_step_plan_topic_for_style\<close> builds for the
  registered prompt always pass the check: the step reaches its inference call.
\<close>

theorem plan_topic_missing_parameter:
  assumes run: "plan_topic_check_and_call env pb tv sp pm w = (res, w')"
  shows "(var \<in> set (map fst (prompt_variables pb)) \<and> map_of tv var = None \<longrightarrow>
            (\<exists>missing. res = Inl (MissingParametersException missing)
               \<and> missing \<in> set (map fst (prompt_variables pb)) \<and> map_of tv missing = None
               \<and> missing = hd (filter (\<lambda>v. map_of tv v = None) (map fst (prompt_variables pb))))
            \<and> w' = w \<and> inference_calls (new_events w w') = [])
       \<and> ((\<forall>v \<in> set (map fst (prompt_variables pb)). map_of tv v \<noteq> None) \<longrightarrow>
            check_prompt_variables (map fst (prompt_variables pb)) tv = Inr ()
            \<and> inference_calls (new_events w w')
                = [(sp, pe_render_template env (prompt_template pb) tv, pm)])
       \<and> length (inference_calls
            (new_events w (snd (step_plan_topic_for_style env query content n w)))) = 1"
proof (intro conjI impI)
  assume "var \<in> set (map fst (prompt_variables pb)) \<and> map_of tv var = None"
  then have v: "var \<in> set (map fst (prompt_variables pb))" and n: "map_of tv var = None"
    by blast+
  obtain m ms where f: "filter (\<lambda>v. map_of tv v = None) (map fst (prompt_variables pb)) = m # ms"
    and m: "m \<in> set (map fst (prompt_variables pb))" "map_of tv m = None"
    by (rule first_missing [OF v n])
  from run have r: "res = Inl (MissingParametersException m)" and w: "w' = w"
    by (simp_all add: plan_topic_check_and_call_def check_prompt_variables_missing [OF f])
  from r m f
  show "\<exists>missing. res = Inl (MissingParametersException missing)
               \<and> missing \<in> set (map fst (prompt_variables pb)) \<and> map_of tv missing = None
               \<and> missing = hd (filter (\<lambda>v. map_of tv v = None) (map fst (prompt_variables pb)))"
    by simp
  from w show "w' = w" .
  from w show "inference_calls (new_events w w') = []"
    by (simp add: inference_calls_def)
next
  assume all: "\<forall>v \<in> set (map fst (prompt_variables pb)). map_of tv v \<noteq> None"
  then show ok: "check_prompt_variables (map fst (prompt_variables pb)) tv = Inr ()"
    by (simp only: check_prompt_variables_ok)
  from run show "inference_calls (new_events w w')
                = [(sp, pe_render_template env (prompt_template pb) tv, pm)]"
    by (auto simp: plan_topic_check_and_call_def ok Let_def new_events_def inference_calls_def
        split: sum.splits)
next
  show "length (inference_calls
            (new_events w (snd (step_plan_topic_for_style env query content n w)))) = 1"
    by (rule step_plan_topic_reaches_inference)
qed

theorem plan_topic_missing_parameter_witness:
  "fst (plan_topic_check_and_call demo_plan_env
          (snd (hd used_prompt_templates))
          [(''context_presentation'', ''c''), (''num_of_section_instruction'', ''n''),
           (''article_style'', ''a''), (''query'', ''q''), (''content_instruction'', ''i''),
           (''output_lang_instruction'', ''o''), (''search_lang_instruction'', ''s''),
           (''json_format_instruction'', ''j'')]
          ''system'' ''gpt-4o-mini'' w0)
     = Inl (MissingParametersException ''content'')
   \<and> inference_calls (new_events w0
        (snd (plan_topic_check_and_call demo_plan_env demo_prompt_base
                [(''query'', ''q''), (''content'', ''c'')] ''system'' ''gpt-4o-mini'' w0)))
     = [(''system'', ''{{ query }} {{ content }}'', ''gpt-4o-mini'')]"
proof -
  let ?pb = "snd (hd used_prompt_templates)"
  let ?tv = "[(''context_presentation'', ''c''), (''num_of_section_instruction'', ''n''),
           (''article_style'', ''a''), (''query'', ''q''), (''content_instruction'', ''i''),
           (''output_lang_instruction'', ''o''), (''search_lang_instruction'', ''s''),
           (''json_format_instruction'', ''j'')]"
  let ?R = "plan_topic_check_and_call demo_plan_env ?pb ?tv ''system'' ''gpt-4o-mini'' w0"
  let ?tv2 = "[(''query'', ''q''), (''content'', ''c'')]"
  let ?R2 = "plan_topic_check_and_call demo_plan_env demo_prompt_base ?tv2 ''system'' ''gpt-4o-mini'' w0"
  have run: "?R = (fst ?R, snd ?R)" by simp
  have run2: "?R2 = (fst ?R2, snd ?R2)" by simp
  have miss: "''content'' \<in> set (map fst (prompt_variables ?pb)) \<and> map_of ?tv ''content'' = None"
    unfolding registered_prompt_variables by simp
  have hdm: "hd (filter (\<lambda>v. map_of ?tv v = None) (map fst (prompt_variables ?pb))) = ''content''"
    unfolding registered_prompt_variables by simp
  have all: "\<forall>v \<in> set (map fst (prompt_variables demo_prompt_base)). map_of ?tv2 v \<noteq> None"
    by (simp add: demo_prompt_base_def)
  note t1 = plan_topic_missing_parameter [OF run, of "''content''", THEN conjunct1, THEN mp, OF miss,
      THEN conjunct1]
  then obtain missing where "fst ?R = Inl (MissingParametersException missing)"
    and "missing = hd (filter (\<lambda>v. map_of ?tv v = None) (map fst (prompt_variables ?pb)))"
    by blast
  then have 1: "fst ?R = Inl (MissingParametersException ''content'')"
    by (simp only: hdm)
  note 2 = plan_topic_missing_parameter [OF run2, THEN conjunct2, THEN conjunct1, THEN mp, OF all,
      THEN conjunct2]
  from 1 2 show ?thesis
    by (simp add: demo_plan_env_def demo_prompt_base_def)
qed

section \<open>Properties of the retry policy\<close>

lemma two_power_ge_8:
  assumes "4 \<le> k"
  shows "(8 :: int) \<le> 2 ^ (k - 1)"
proof -
  have "(2 :: int) ^ 3 \<le> 2 ^ (k - 1)"
    using assms by (intro power_increasing) simp_all
  then show ?thesis by simp
qed

text \<open>
  C8. The retry delay for attempt \<open>k\<close> is \<open>min (base_delay * 2 ^ (k - 1)) max_delay\<close>.
  With the defaults of \<open>settings.py\<close> (base delay 10 seconds, maximal delay 60 seconds,
  3 retries) the delays of attempts 1, 2, 3 are 10, 20, 40 seconds and 60 seconds from
  attempt 4 on; a source whose attempt count exceeds the maximal number of retries is
  marked permanently failed and is not submitted again.
\<close>

theorem retry_policy_defaults:
  "retry_delay s k
     = min (scheduler_base_delay_in_seconds s * 2 ^ (k - 1)) (scheduler_max_delay_in_seconds s)
   \<and> scheduler_base_delay_in_seconds default_settings = 10
   \<and> scheduler_max_delay_in_seconds default_settings = 60
   \<and> scheduler_max_retries default_settings = 3
   \<and> (1 \<le> k \<longrightarrow>
        retry_delay default_settings k
          = (if k = 1 then 10 else if k = 2 then 20 else if k = 3 then 40 else 60))
   \<and> (scheduler_max_retries s < int k \<longrightarrow> on_task_failure s k = PermanentlyFailed)
   \<and> (3 < k \<longrightarrow> on_task_failure default_settings k = PermanentlyFailed)
   \<and> (k \<le> 3 \<longrightarrow>
        on_task_failure default_settings k = Resubmit (retry_delay default_settings k))"
proof (intro conjI impI)
  show "retry_delay s k
     = min (scheduler_base_delay_in_seconds s * 2 ^ (k - 1)) (scheduler_max_delay_in_seconds s)"
    by (simp add: retry_delay_def)
next
  assume k: "1 \<le> k"
  show "retry_delay default_settings k
          = (if k = 1 then 10 else if k = 2 then 20 else if k = 3 then 40 else 60)"
  proof (cases "4 \<le> k")
    case True
    from two_power_ge_8 [OF True] True show ?thesis
      by (simp add: retry_delay_def default_settings_def)
  next
    case False
    with k have "k = 1 \<or> k = 2 \<or> k = 3" by arith
    then show ?thesis
      by (auto simp: retry_delay_def default_settings_def)
  qed
qed (simp_all add: on_task_failure_def default_settings_def)

theorem retry_policy_defaults_witness:
  "retry_delay default_settings 2 = 20
   \<and> retry_delay default_settings 5 = 60
   \<and> on_task_failure default_settings 4 = PermanentlyFailed
   \<and> on_task_failure default_settings 2 = Resubmit 20"
proof -
  note t = retry_policy_defaults [of default_settings]
  have a: "retry_delay default_settings 2 = 20"
    using t [of 2] by simp
  have b: "retry_delay default_settings 5 = 60"
    using t [of 5] by simp
  have c: "on_task_failure default_settings 4 = PermanentlyFailed"
    using t [of 4] by simp
  have d: "on_task_failure default_settings 2 = Resubmit (retry_delay default_settings 2)"
    using t [of 2] by simp
  from a b c d show ?thesis by simp
qed

section \<open>Properties of the add\_url command\<close>

lemma call_process_manual_proj [simp]:
  "fst (call_process_docsource_manual env ctx d w) = fst (ce_process_docsource_manual env ctx (repo w) d)"
  "trace (snd (call_process_docsource_manual env ctx d w)) =
     trace w @ [CallProcessManual (docsource_uuid d)
                  (fst (ce_process_docsource_manual env ctx (repo w) d))]"
  "repo (snd (call_process_docsource_manual env ctx d w)) =
     snd (ce_process_docsource_manual env ctx (repo w) d)"
  by (simp_all add: call_process_docsource_manual_def case_prod_beta)

lemma get_documents_proj [simp]:
  "fst (get_documents_for_docsource d w) =
     (case docs_by_source (repo w) (docsource_uuid d) of None \<Rightarrow> [] | Some ds \<Rightarrow> ds)"
  "trace (snd (get_documents_for_docsource d w)) = trace w @ [CallGetDocuments (docsource_uuid d)]"
  "repo (snd (get_documents_for_docsource d w)) = repo w"
  by (simp_all add: get_documents_for_docsource_def)





section \<open>Properties of run\_inference\_call\_direct\<close>

lemma usage_store_record_api_call [simp]:
  "usage_store (record_api_call u w) = usage_store w @ [u]"
  by (simp add: record_api_call_def)

lemma trace_record_api_call [simp]: "trace (record_api_call u w) = trace w"
  by (simp add: record_api_call_def)

lemma completion_outcomes_append [simp]:
  "completion_outcomes (xs @ ys) = completion_outcomes xs @ completion_outcomes ys"
  by (simp add: completion_outcomes_def)

lemma completion_outcomes_simps [simp]:
  "completion_outcomes [] = []"
  "completion_outcomes (CallCompletion p r # evs) = r # completion_outcomes evs"
  "completion_outcomes (LogDebug m # evs) = completion_outcomes evs"
  "completion_outcomes (LogInfo m # evs) = completion_outcomes evs"
  "completion_outcomes (LogWarning m # evs) = completion_outcomes evs"
  "completion_outcomes (LogError m # evs) = completion_outcomes evs"
  by (simp_all add: completion_outcomes_def)

lemma resolve_temperature_usage [simp]:
  "usage_store (snd (resolve_temperature env mo w)) = usage_store w"
  by (auto simp: resolve_temperature_def Let_def split: sum.splits option.splits prod.splits)

lemma resolve_max_tokens_usage [simp]:
  "usage_store (snd (resolve_max_tokens env mo w)) = usage_store w"
  by (simp add: resolve_max_tokens_def Let_def split: sum.splits option.splits)







text \<open>
  A completion without usage: line 161 raises inside the \<open>finally\<close> block, so nothing
  is written to the usage store.
\<close>

lemma finish_inference_call_without_usage:
  assumes "usage c = None"
  shows "usage_store
           (snd (finish_inference_call env uid prov model sp up nj ct parsed (Inr (Some c)) w))
          = usage_store w
       \<and> fst (finish_inference_call env uid prov model sp up nj ct parsed (Inr (Some c)) w)
           = Inl (AttributeError ''total_tokens'')"
  using assms
  by (simp add: finish_inference_call_def Let_def)






end
